theory Spec2Isabelle
  imports Complex_Main "HOL-Library.AList" "HOL-Library.Sublist"
begin

section \<open>Values of the catalog\<close>

text \<open>
  A stream's schema is the result of loading a JSON document: dictionaries, lists, strings,
  integers, floats, booleans and \<^verbatim>\<open>None\<close>. A dictionary keeps its insertion order, so it
  is an association list; its keys are pairwise distinct, as the keys of a Python
  dictionary are.
\<close>

datatype json =
    JNull
  | JBool bool
  | JInt int
  | JFloat real
  | JStr string
  | JList "json list"
  | JDict "(string \<times> json) list"

text \<open>The exceptions the processor can raise.\<close>

datatype py_error =
    TypeError
  | AttributeError
  | KeyError string

text \<open>Python's truth value of an object, as \<^verbatim>\<open>if x:\<close> and \<^verbatim>\<open>not x\<close> read it.\<close>

fun py_truthy :: "json \<Rightarrow> bool" where
  "py_truthy JNull = False"
| "py_truthy (JBool b) = b"
| "py_truthy (JInt i) = (i \<noteq> 0)"
| "py_truthy (JFloat r) = (r \<noteq> 0)"
| "py_truthy (JStr s) = (s \<noteq> [])"
| "py_truthy (JList xs) = (xs \<noteq> [])"
| "py_truthy (JDict kvs) = (kvs \<noteq> [])"

text \<open>Whether the string \<open>k\<close> occurs in \<open>s\<close> as a substring (\<^verbatim>\<open>k in s\<close> on two strings).\<close>

fun is_substring :: "string \<Rightarrow> string \<Rightarrow> bool" where
  "is_substring k [] = (k = [])"
| "is_substring k (c # cs) = (prefix k (c # cs) \<or> is_substring k cs)"

text \<open>
  \<^verbatim>\<open>k in obj\<close> for a string \<open>k\<close>: key membership in a dictionary, element membership in
  a list, substring test in a string, and a \<^verbatim>\<open>TypeError\<close> for every object that is not
  iterable.
\<close>

fun py_contains :: "string \<Rightarrow> json \<Rightarrow> py_error + bool" where
  "py_contains k (JDict kvs) = Inr (k \<in> set (map fst kvs))"
| "py_contains k (JList xs) = Inr (JStr k \<in> set xs)"
| "py_contains k (JStr s) = Inr (is_substring k s)"
| "py_contains k JNull = Inl TypeError"
| "py_contains k (JBool b) = Inl TypeError"
| "py_contains k (JInt i) = Inl TypeError"
| "py_contains k (JFloat r) = Inl TypeError"

text \<open>
  \<^verbatim>\<open>obj[k]\<close> for a string \<open>k\<close>: the value of the key in a dictionary (\<^verbatim>\<open>KeyError\<close> when it
  is absent), and a \<^verbatim>\<open>TypeError\<close> for every other object (a list and a string take
  integer indices only).
\<close>

fun py_getitem :: "json \<Rightarrow> string \<Rightarrow> py_error + json" where
  "py_getitem (JDict kvs) k = (case map_of kvs k of None \<Rightarrow> Inl (KeyError k) | Some v \<Rightarrow> Inr v)"
| "py_getitem (JList xs) k = Inl TypeError"
| "py_getitem (JStr s) k = Inl TypeError"
| "py_getitem JNull k = Inl TypeError"
| "py_getitem (JBool b) k = Inl TypeError"
| "py_getitem (JInt i) k = Inl TypeError"
| "py_getitem (JFloat r) k = Inl TypeError"

text \<open>\<^verbatim>\<open>obj.items()\<close>-style iteration \<^verbatim>\<open>for field in obj.keys(): ... obj[field]\<close>: only a
  dictionary has \<^verbatim>\<open>keys\<close>.\<close>

fun py_items :: "json \<Rightarrow> py_error + (string \<times> json) list" where
  "py_items (JDict kvs) = Inr kvs"
| "py_items (JList xs) = Inl AttributeError"
| "py_items (JStr s) = Inl AttributeError"
| "py_items JNull = Inl AttributeError"
| "py_items (JBool b) = Inl AttributeError"
| "py_items (JInt i) = Inl AttributeError"
| "py_items (JFloat r) = Inl AttributeError"

text \<open>\<^verbatim>\<open>sep.join(xs)\<close>.\<close>

fun py_join :: "string \<Rightarrow> string list \<Rightarrow> string" where
  "py_join sep [] = []"
| "py_join sep [x] = x"
| "py_join sep (x # y # ys) = x @ sep @ py_join sep (y # ys)"

text \<open>\<^verbatim>\<open>str(n)\<close> for a natural number: its decimal digits.\<close>

fun string_of_nat :: "nat \<Rightarrow> string" where
  "string_of_nat n =
     (if n < 10 then [''0123456789'' ! n]
      else string_of_nat (n div 10) @ [''0123456789'' ! (n mod 10)])"

declare string_of_nat.simps [simp del]

definition sq :: string where
  "sq = [CHR 0x27]"

definition nl :: string where
  "nl = [CHR 0x0A]"

section \<open>Collaborators outside the module\<close>

text \<open>
  The module imports its type predicates and \<^verbatim>\<open>jinja_call\<close> from
  \<^verbatim>\<open>normalization.transform_catalog.utils\<close>, the name transformer from
  \<^verbatim>\<open>destination_name_transformer\<close> and the destination type from
  \<^verbatim>\<open>normalization.destination_type\<close>. They are parameters of the model: every function
  below takes them in a record \<open>u\<close>, and every theorem holds for all of them. Python's
  \<^verbatim>\<open>repr\<close> of a list of strings and \<^verbatim>\<open>str\<close> of a schema value, which the
  f-strings call, are parameters too.
\<close>

datatype destination_type = BIGQUERY | POSTGRES | REDSHIFT | SNOWFLAKE

record externals =
  is_airbyte_column :: "string \<Rightarrow> bool"
  is_combining_node :: "json \<Rightarrow> bool"
  is_array :: "json \<Rightarrow> bool"
  is_object :: "json \<Rightarrow> bool"
  is_integer :: "json \<Rightarrow> bool"
  is_number :: "json \<Rightarrow> bool"
  is_boolean :: "json \<Rightarrow> bool"
  is_string :: "json \<Rightarrow> bool"
  is_simple_property :: "json \<Rightarrow> bool"
  jinja_call :: "string \<Rightarrow> string"
  normalize_table_name :: "destination_type \<Rightarrow> string \<Rightarrow> string"
  normalize_column_name :: "destination_type \<Rightarrow> string \<Rightarrow> bool \<Rightarrow> string"
  repr_str_list :: "string list \<Rightarrow> string"
  str_json :: "json \<Rightarrow> string"

section \<open>The stream processor\<close>

text \<open>
  The fields \<^verbatim>\<open>init\<close> and \<^verbatim>\<open>initFromParent\<close> set. No field is assigned after
  construction, so the reference to the parent is the parent's value. The name transformer
  is built from the integration type alone and is read through \<open>u\<close>.
\<close>

datatype stream_processor = StreamProcessor
  (stream_name: string)
  (output_directory: string)
  (integration_type: destination_type)
  (raw_schema: string)
  (schema: string)
  (json_column_name: string)
  (properties: json)
  (parent: "stream_processor option")
  (is_nested_array: bool)
  (json_path: "string list")

definition init :: "string \<Rightarrow> string \<Rightarrow> destination_type \<Rightarrow> string \<Rightarrow> string \<Rightarrow> string \<Rightarrow> json
    \<Rightarrow> stream_processor" where
  "init stream_name' output_directory' integration_type' raw_schema' schema' json_column_name'
      properties' =
     StreamProcessor stream_name' output_directory' integration_type' raw_schema' schema'
       json_column_name' properties' None False [stream_name']"

definition initFromParent :: "stream_processor \<Rightarrow> string \<Rightarrow> string \<Rightarrow> json \<Rightarrow> bool
    \<Rightarrow> stream_processor" where
  "initFromParent parent' child_name json_column_name' properties' is_nested_array' =
     StreamProcessor child_name (output_directory parent') (integration_type parent')
       (raw_schema parent') (schema parent') json_column_name' properties' (Some parent')
       is_nested_array' (json_path parent' @ [child_name])"

definition current_json_path :: "stream_processor \<Rightarrow> string" where
  "current_json_path sp = py_join ''/'' (json_path sp)"

definition table_name :: "externals \<Rightarrow> stream_processor \<Rightarrow> string" where
  "table_name u sp = normalize_table_name u (integration_type sp) (stream_name sp)"

definition hash_id :: "externals \<Rightarrow> stream_processor \<Rightarrow> string" where
  "hash_id u sp =
     normalize_column_name u (integration_type sp)
       (''_airbyte_'' @ table_name u sp @ ''_hashid'') False"

definition parent_hash_id :: "externals \<Rightarrow> stream_processor \<Rightarrow> string" where
  "parent_hash_id u sp = (case parent sp of Some p \<Rightarrow> hash_id u p | None \<Rightarrow> [])"

definition get_schema :: "stream_processor \<Rightarrow> bool \<Rightarrow> string" where
  "get_schema sp is_intermediate = (if is_intermediate then raw_schema sp else schema sp)"

definition sql_table_comment :: "externals \<Rightarrow> stream_processor \<Rightarrow> string" where
  "sql_table_comment u sp =
     (if length (json_path sp) > 1
      then ''-- '' @ table_name u sp @ '' from '' @ current_json_path sp
      else ''-- '' @ table_name u sp)"

section \<open>Table names\<close>

text \<open>
  \<^verbatim>\<open>register_new_table\<close> adds the name to the set \<^verbatim>\<open>table_context\<close>, or raises
  \<^verbatim>\<open>KeyError\<close> when the name is a member already. The set is mutated in place in the
  source; the model returns the new set.
\<close>

definition register_new_table :: "string set \<Rightarrow> string \<Rightarrow> py_error + string set" where
  "register_new_table table_context name =
     (if name \<notin> table_context then Inr (insert name table_context)
      else Inl (KeyError (''Duplicate table '' @ name)))"

text \<open>The candidate of round \<open>i\<close> of the loop of \<^verbatim>\<open>generate_new_table_name\<close>.\<close>

definition candidate :: "externals \<Rightarrow> stream_processor \<Rightarrow> string \<Rightarrow> nat \<Rightarrow> string" where
  "candidate u sp suffix' i =
     (if suffix' \<noteq> []
      then normalize_table_name u (integration_type sp)
             (table_name u sp @ ''_'' @ string_of_nat i @ ''_'' @ suffix')
      else normalize_table_name u (integration_type sp)
             (table_name u sp @ ''_'' @ string_of_nat i))"

text \<open>
  The loop \<^verbatim>\<open>for i in range(1, 1000)\<close>: \<open>cur\<close> is \<^verbatim>\<open>new_table_name\<close> before the round,
  the list holds the rounds still to run. A round assigns the candidate and breaks when it
  is not in the set; when the rounds are used up the last assignment stays.
\<close>

fun try_names :: "(nat \<Rightarrow> string) \<Rightarrow> string set \<Rightarrow> string \<Rightarrow> nat list \<Rightarrow> string" where
  "try_names cand table_context cur [] = cur"
| "try_names cand table_context cur (i # rounds) =
     (let new_table_name = cand i
      in if new_table_name \<notin> table_context then new_table_name
         else try_names cand table_context new_table_name rounds)"

definition generate_new_table_name ::
    "externals \<Rightarrow> stream_processor \<Rightarrow> string set \<Rightarrow> bool \<Rightarrow> string \<Rightarrow> py_error + string \<times> string set" where
  "generate_new_table_name u sp table_context is_intermediate suffix' =
     (let new_table_name =
            (if \<not> is_intermediate \<and> parent sp = None then table_name u sp
             else try_names (candidate u sp suffix') table_context (table_name u sp) [1..<1000])
      in case register_new_table table_context new_table_name of
           Inl e \<Rightarrow> Inl e
         | Inr table_context' \<Rightarrow> Inr (new_table_name, table_context'))"

section \<open>Nested-property discovery\<close>

text \<open>
  \<^verbatim>\<open>find_properties_object\<close> returns a dictionary from joined paths to a
  \<^verbatim>\<open>properties\<close> value or to \<^verbatim>\<open>None\<close>. \<^verbatim>\<open>result.update(child)\<close> writes the
  entries of \<open>child\<close> into \<open>result\<close> in order: a key that is present keeps its place
  and takes the new value, a new key goes to the end.
\<close>

definition dict_update :: "(string \<times> json) list \<Rightarrow> (string \<times> json) list \<Rightarrow> (string \<times> json) list" where
  "dict_update result child = foldl (\<lambda>r (k, v). AList.update k v r) result child"

lemma map_of_json_size:
  "map_of kvs k = Some v \<Longrightarrow> size v < Suc (size_list (size_prod (\<lambda>_. 0) size) kvs)"
  by (induction kvs) (auto split: if_splits)

text \<open>
  The first test of the source returns the empty dictionary for a string and for an
  integer (a Python boolean is an integer). The tests \<^verbatim>\<open>"items" in properties\<close>,
  \<^verbatim>\<open>"properties" in properties\<close> and \<^verbatim>\<open>"type" in properties\<close> raise \<^verbatim>\<open>TypeError\<close> on
  \<^verbatim>\<open>None\<close> and on a float; on a list they test whether the string is an element, and the
  subscript \<^verbatim>\<open>properties["items"]\<close> that follows a positive test raises \<^verbatim>\<open>TypeError\<close>;
  on a dictionary they test the keys. The two loops are \<open>fpo_dict_loop\<close> (over the keys
  of a dictionary) and \<open>fpo_list_loop\<close> (over the items of a list), with \<open>result\<close> as
  accumulator.
\<close>

function find_properties_object ::
    "externals \<Rightarrow> string list \<Rightarrow> string \<Rightarrow> json \<Rightarrow> py_error + (string \<times> json) list"
  and fpo_dict_loop ::
    "externals \<Rightarrow> string list \<Rightarrow> (string \<times> json) list \<Rightarrow> (string \<times> json) list
      \<Rightarrow> py_error + (string \<times> json) list"
  and fpo_list_loop ::
    "externals \<Rightarrow> string list \<Rightarrow> string \<Rightarrow> json list \<Rightarrow> (string \<times> json) list
      \<Rightarrow> py_error + (string \<times> json) list"
where
  "find_properties_object u path field (JStr s) = Inr []"
| "find_properties_object u path field (JInt i) = Inr []"
| "find_properties_object u path field (JBool b) = Inr []"
| "find_properties_object u path field JNull = Inl TypeError"
| "find_properties_object u path field (JFloat r) = Inl TypeError"
| "find_properties_object u path field (JList xs) =
     (if JStr ''items'' \<in> set xs then Inl TypeError
      else if JStr ''properties'' \<in> set xs then Inl TypeError
      else if JStr ''type'' \<in> set xs then Inl TypeError
      else fpo_list_loop u (path @ [field]) field xs [])"
| "find_properties_object u path field (JDict kvs) =
     (case map_of kvs ''items'' of
        Some items \<Rightarrow> find_properties_object u path field items
      | None \<Rightarrow>
         (case map_of kvs ''properties'' of
            Some props \<Rightarrow> Inr [(py_join ''_'' (path @ [field]), props)]
          | None \<Rightarrow>
             (case map_of kvs ''type'' of
                Some t \<Rightarrow>
                  if is_simple_property u t then Inr [(py_join ''_'' (path @ [field]), JNull)]
                  else fpo_dict_loop u (path @ [field]) kvs []
              | None \<Rightarrow> fpo_dict_loop u (path @ [field]) kvs [])))"
| "fpo_dict_loop u current_path [] result = Inr result"
| "fpo_dict_loop u current_path ((key, v) # rest) result =
     (case find_properties_object u current_path key v of
        Inl e \<Rightarrow> Inl e
      | Inr child \<Rightarrow>
          fpo_dict_loop u current_path rest (if child \<noteq> [] then dict_update result child else result))"
| "fpo_list_loop u current_path field [] result = Inr result"
| "fpo_list_loop u current_path field (item # rest) result =
     (case find_properties_object u current_path field item of
        Inl e \<Rightarrow> Inl e
      | Inr child \<Rightarrow>
          fpo_list_loop u current_path field rest
            (if child \<noteq> [] then dict_update result child else result))"
  by pat_completeness auto
termination
  by (relation "measure (\<lambda>x. case x of
          Inl (u, path, field, p) \<Rightarrow> 2 * size p
        | Inr (Inl (u, path, kvs, result)) \<Rightarrow> 2 * size_list (size_prod (\<lambda>_. 0) size) kvs + 1
        | Inr (Inr (u, path, field, xs, result)) \<Rightarrow> 2 * size_list size xs + 1)")
     (auto dest: map_of_json_size)

section \<open>Child discovery\<close>

text \<open>A list comprehension whose element expression can raise: the first exception ends it.\<close>

fun map_result :: "('a \<Rightarrow> py_error + 'b) \<Rightarrow> 'a list \<Rightarrow> py_error + 'b list" where
  "map_result f [] = Inr []"
| "map_result f (x # xs) =
     (case f x of
        Inl e \<Rightarrow> Inl e
      | Inr y \<Rightarrow> (case map_result f xs of Inl e \<Rightarrow> Inl e | Inr ys \<Rightarrow> Inr (y # ys)))"

text \<open>\<^verbatim>\<open>obj.keys()\<close>: only a dictionary has the method.\<close>

definition py_keys :: "json \<Rightarrow> py_error + string list" where
  "py_keys obj = (case py_items obj of Inl e \<Rightarrow> Inl e | Inr kvs \<Rightarrow> Inr (map fst kvs))"

text \<open>
  The body of \<^verbatim>\<open>if children_properties:\<close>: one processor for each key of the dictionary,
  constructed through \<^verbatim>\<open>initFromParent\<close>. An empty dictionary is false and gives no child.
\<close>

definition spawn_children ::
    "stream_processor \<Rightarrow> string \<Rightarrow> string \<Rightarrow> bool \<Rightarrow> (string \<times> json) list \<Rightarrow> stream_processor list" where
  "spawn_children sp field json_column_name' is_nested_array' children_properties =
     (if children_properties \<noteq> []
      then map (\<lambda>(child_key, props). initFromParent sp field json_column_name' props is_nested_array')
             children_properties
      else [])"

text \<open>One round of the loop of \<^verbatim>\<open>find_children_streams\<close>: the children appended for \<open>field\<close>.\<close>

definition object_children :: "externals \<Rightarrow> stream_processor \<Rightarrow> string \<Rightarrow> json \<Rightarrow> py_error + stream_processor list" where
  "object_children u sp field defn =
     (case find_properties_object u [] field defn of
        Inl e \<Rightarrow> Inl e
      | Inr children_properties \<Rightarrow>
          Inr (spawn_children sp field (sq @ field @ sq) False children_properties))"

definition array_children :: "externals \<Rightarrow> stream_processor \<Rightarrow> string \<Rightarrow> json \<Rightarrow> py_error + stream_processor list" where
  "array_children u sp field defn =
     (let quoted_field = normalize_column_name u (integration_type sp) field True
      in case py_getitem defn ''items'' of
           Inl e \<Rightarrow> Inl e
         | Inr items \<Rightarrow>
            (case find_properties_object u [] field items of
               Inl e \<Rightarrow> Inl e
             | Inr children_properties \<Rightarrow>
                 Inr (spawn_children sp field (''unnested_column_value('' @ quoted_field @ '')'') True
                        children_properties)))"

definition children_of_field :: "externals \<Rightarrow> stream_processor \<Rightarrow> string \<Rightarrow> py_error + stream_processor list" where
  "children_of_field u sp field =
     (if is_airbyte_column u field then Inr []
      else
        (case py_getitem (properties sp) field of
           Inl e \<Rightarrow> Inl e
         | Inr defn \<Rightarrow>
            (if is_combining_node u defn then Inr []
             else
               (case py_contains ''type'' defn of
                  Inl e \<Rightarrow> Inl e
                | Inr has_type \<Rightarrow>
                   (if \<not> has_type then object_children u sp field defn
                    else
                      (case py_getitem defn ''type'' of
                         Inl e \<Rightarrow> Inl e
                       | Inr t \<Rightarrow>
                          (if is_object u t then object_children u sp field defn
                           else if is_array u t then
                             (case py_contains ''items'' defn of
                                Inl e \<Rightarrow> Inl e
                              | Inr has_items \<Rightarrow>
                                  (if has_items then array_children u sp field defn else Inr []))
                           else Inr [])))))))"

definition find_children_streams :: "externals \<Rightarrow> stream_processor \<Rightarrow> py_error + stream_processor list" where
  "find_children_streams u sp =
     (case py_keys (properties sp) of
        Inl e \<Rightarrow> Inl e
      | Inr fields' \<Rightarrow>
         (case map_result (children_of_field u sp) fields' of
            Inl e \<Rightarrow> Inl e
          | Inr children \<Rightarrow> Inr (concat children)))"

section \<open>The four models\<close>

text \<open>
  An entry of a select list is either a bare column or \<^verbatim>\<open>expression as column\<close>. The source
  builds the entry as one string, \<open>sql_of_item\<close>; the model keeps the two parts apart, so
  that the column an entry produces, \<open>output_column\<close>, can be read off.
\<close>

datatype select_item = Col string | As string string

fun sql_of_item :: "select_item \<Rightarrow> string" where
  "sql_of_item (Col c) = c"
| "sql_of_item (As e c) = e @ '' as '' @ c"


text \<open>
  The select list the three select templates share: the block
  \<^verbatim>\<open>{%- if parent_hash_id %}\<close> (an empty string is false), the loop over \<^verbatim>\<open>fields\<close>, and
  the columns the template ends with. Each entry is rendered on a line of its own, with a
  comma after every entry but the last.
\<close>

definition select_list :: "string \<Rightarrow> select_item list \<Rightarrow> select_item list \<Rightarrow> select_item list" where
  "select_list parent_hash_id' fields' last_columns =
     (if parent_hash_id' \<noteq> [] then [Col parent_hash_id'] else []) @ fields' @ last_columns"

fun render_select_list :: "select_item list \<Rightarrow> string" where
  "render_select_list [] = []"
| "render_select_list [x] = nl @ ''    '' @ sql_of_item x"
| "render_select_list (x # y # ys) =
     nl @ ''    '' @ sql_of_item x @ '','' @ render_select_list (y # ys)"

subsection \<open>Unnesting\<close>

definition unnesting_before_query :: "externals \<Rightarrow> stream_processor \<Rightarrow> string" where
  "unnesting_before_query u sp =
     (case parent sp of
        Some p \<Rightarrow>
          if is_nested_array sp then
            (let quoted_name = normalize_table_name u (integration_type sp) (stream_name p);
                 quoted_field = normalize_column_name u (integration_type sp) (stream_name sp) True
             in jinja_call u (''unnest_cte('' @ quoted_name @ '', '' @ quoted_field @ '')''))
          else []
      | None \<Rightarrow> [])"

definition cross_join :: "externals \<Rightarrow> stream_processor \<Rightarrow> stream_processor \<Rightarrow> string" where
  "cross_join u sp p =
     (if is_nested_array sp then
        (let quoted_name = sq @ normalize_table_name u (integration_type sp) (stream_name p) @ sq;
             quoted_field = normalize_column_name u (integration_type sp) (stream_name sp) True
         in jinja_call u (''cross_join_unnest('' @ quoted_name @ '', '' @ quoted_field @ '')''))
      else [])"

definition unnesting_after_query :: "externals \<Rightarrow> stream_processor \<Rightarrow> string" where
  "unnesting_after_query u sp =
     (case parent sp of
        Some p \<Rightarrow>
          (let column_name = normalize_column_name u (integration_type sp) (stream_name sp) False
           in nl @ cross_join u sp p @ nl @ ''where '' @ column_name @ '' is not null'')
      | None \<Rightarrow> [])"

subsection \<open>Extraction from the JSON column\<close>

definition extract_json_column ::
    "externals \<Rightarrow> destination_type \<Rightarrow> string \<Rightarrow> string \<Rightarrow> json \<Rightarrow> py_error + select_item" where
  "extract_json_column u dt property_name json_column_name' defn =
     (let path_repr = repr_str_list u [property_name];
          args = ''('' @ json_column_name' @ '', '' @ path_repr @ '')'';
          column_name = normalize_column_name u dt property_name False
      in case py_contains ''type'' defn of
           Inl e \<Rightarrow> Inl e
         | Inr has_type \<Rightarrow>
             if has_type then
               (case py_getitem defn ''type'' of
                  Inl e \<Rightarrow> Inl e
                | Inr t \<Rightarrow>
                    Inr (As (if is_array u t then jinja_call u (''json_extract_array'' @ args)
                             else if is_object u t then jinja_call u (''json_extract'' @ args)
                             else if is_simple_property u t then jinja_call u (''json_extract_scalar'' @ args)
                             else jinja_call u (''json_extract'' @ args))
                            column_name))
             else Inr (As (jinja_call u (''json_extract'' @ args)) column_name))"

text \<open>The comprehension \<^verbatim>\<open>for field in self.properties.keys() if not is_airbyte_column(field)\<close>.\<close>

definition declared_fields :: "externals \<Rightarrow> stream_processor \<Rightarrow> py_error + string list" where
  "declared_fields u sp =
     (case py_keys (properties sp) of
        Inl e \<Rightarrow> Inl e
      | Inr fields' \<Rightarrow> Inr (filter (\<lambda>field. \<not> is_airbyte_column u field) fields'))"

definition extract_json_columns :: "externals \<Rightarrow> stream_processor \<Rightarrow> py_error + select_item list" where
  "extract_json_columns u sp =
     (case declared_fields u sp of
        Inl e \<Rightarrow> Inl e
      | Inr fields' \<Rightarrow>
          map_result (\<lambda>field.
              case py_getitem (properties sp) field of
                Inl e \<Rightarrow> Inl e
              | Inr defn \<Rightarrow>
                  extract_json_column u (integration_type sp) field (json_column_name sp) defn)
            fields')"

text \<open>The select list of the first template, from the arguments of its \<^verbatim>\<open>render\<close>.\<close>

definition json_parsing_select :: "externals \<Rightarrow> stream_processor \<Rightarrow> py_error + select_item list" where
  "json_parsing_select u sp =
     (case extract_json_columns u sp of
        Inl e \<Rightarrow> Inl e
      | Inr fields' \<Rightarrow>
          Inr (select_list (parent_hash_id u sp) fields' [Col ''_airbyte_emitted_at'']))"

definition generate_json_parsing_model :: "externals \<Rightarrow> stream_processor \<Rightarrow> string \<Rightarrow> py_error + string" where
  "generate_json_parsing_model u sp from_table =
     (case json_parsing_select u sp of
        Inl e \<Rightarrow> Inl e
      | Inr select_items \<Rightarrow>
          Inr (nl @ unnesting_before_query u sp @ nl @ ''select''
               @ render_select_list select_items
               @ nl @ ''from '' @ from_table
               @ nl @ unnesting_after_query u sp
               @ nl @ sql_table_comment u sp))"

subsection \<open>Column typing\<close>

definition cast_property_type_as_array :: "externals \<Rightarrow> stream_processor \<Rightarrow> string \<Rightarrow> string" where
  "cast_property_type_as_array u sp property_name =
     normalize_column_name u (integration_type sp) property_name False"

definition cast_property_type_as_object :: "externals \<Rightarrow> stream_processor \<Rightarrow> string \<Rightarrow> string" where
  "cast_property_type_as_object u sp property_name = jinja_call u ''type_json()''"

text \<open>The last line of \<^verbatim>\<open>cast_property_type\<close>: \<^verbatim>\<open>cast(column as sql_type) as column\<close>.\<close>

definition cast_as :: "string \<Rightarrow> string \<Rightarrow> select_item" where
  "cast_as column_name sql_type = As (''cast('' @ column_name @ '' as '' @ sql_type @ '')'') column_name"

text \<open>
  \<^verbatim>\<open>cast_property_type\<close> returns the entry and prints a warning on two of its paths; the
  model returns the entry with the lines printed.
\<close>

definition cast_property_type ::
    "externals \<Rightarrow> stream_processor \<Rightarrow> string \<Rightarrow> py_error + select_item \<times> string list" where
  "cast_property_type u sp property_name =
     (let column_name = normalize_column_name u (integration_type sp) property_name False
      in case py_getitem (properties sp) property_name of
           Inl e \<Rightarrow> Inl e
         | Inr defn \<Rightarrow>
            (case py_contains ''type'' defn of
               Inl e \<Rightarrow> Inl e
             | Inr has_type \<Rightarrow>
                (if \<not> has_type then
                   Inr (Col column_name,
                        [''WARN: Unknown type for column '' @ property_name @ '' at ''
                           @ current_json_path sp])
                 else
                   (case py_getitem defn ''type'' of
                      Inl e \<Rightarrow> Inl e
                    | Inr t \<Rightarrow>
                       (if is_array u t then
                          Inr (Col (cast_property_type_as_array u sp property_name), [])
                        else if is_object u t then
                          Inr (cast_as column_name (cast_property_type_as_object u sp property_name), [])
                        else if is_integer u t then
                          Inr (cast_as column_name (jinja_call u ''dbt_utils.type_int()''), [])
                        else if is_number u t then
                          Inr (cast_as column_name (jinja_call u ''dbt_utils.type_float()''), [])
                        else if is_boolean u t then
                          (let jinja_column =
                                 normalize_column_name u (integration_type sp) property_name True;
                               cast_operation = jinja_call u (''cast_to_boolean('' @ jinja_column @ '')'')
                           in Inr (As cast_operation column_name, []))
                        else if is_string u t then
                          Inr (cast_as column_name (jinja_call u ''dbt_utils.type_string()''), [])
                        else
                          Inr (Col column_name,
                               [''WARN: Unknown type '' @ str_json u t @ '' for column ''
                                  @ property_name @ '' at '' @ current_json_path sp]))))))"

definition cast_property_types ::
    "externals \<Rightarrow> stream_processor \<Rightarrow> py_error + select_item list \<times> string list" where
  "cast_property_types u sp =
     (case declared_fields u sp of
        Inl e \<Rightarrow> Inl e
      | Inr fields' \<Rightarrow>
         (case map_result (cast_property_type u sp) fields' of
            Inl e \<Rightarrow> Inl e
          | Inr results \<Rightarrow> Inr (map fst results, concat (map snd results))))"

definition column_typing_select ::
    "externals \<Rightarrow> stream_processor \<Rightarrow> py_error + select_item list \<times> string list" where
  "column_typing_select u sp =
     (case cast_property_types u sp of
        Inl e \<Rightarrow> Inl e
      | Inr (fields', printed) \<Rightarrow>
          Inr (select_list (parent_hash_id u sp) fields' [Col ''_airbyte_emitted_at''], printed))"

definition generate_column_typing_model ::
    "externals \<Rightarrow> stream_processor \<Rightarrow> string \<Rightarrow> py_error + string \<times> string list" where
  "generate_column_typing_model u sp from_table =
     (case column_typing_select u sp of
        Inl e \<Rightarrow> Inl e
      | Inr (select_items, printed) \<Rightarrow>
          Inr (nl @ ''select''
               @ render_select_list select_items
               @ nl @ ''from '' @ from_table
               @ nl @ sql_table_comment u sp
               @ nl @ ''    '',
               printed))"

subsection \<open>Hash id\<close>

definition safe_cast_to_string :: "externals \<Rightarrow> destination_type \<Rightarrow> string \<Rightarrow> json \<Rightarrow> py_error + string" where
  "safe_cast_to_string u dt property_name defn =
     (let column_name = normalize_column_name u dt property_name True
      in case py_contains ''type'' defn of
           Inl e \<Rightarrow> Inl e
         | Inr has_type \<Rightarrow>
            (if \<not> has_type then Inr column_name
             else
               (case py_getitem defn ''type'' of
                  Inl e \<Rightarrow> Inl e
                | Inr t \<Rightarrow>
                    (if is_boolean u t then Inr (''boolean_to_string('' @ column_name @ '')'')
                     else if is_array u t then Inr (''array_to_string('' @ column_name @ '')'')
                     else Inr column_name))))"

definition safe_cast_to_strings :: "externals \<Rightarrow> stream_processor \<Rightarrow> py_error + string list" where
  "safe_cast_to_strings u sp =
     (case declared_fields u sp of
        Inl e \<Rightarrow> Inl e
      | Inr fields' \<Rightarrow>
          map_result (\<lambda>field.
              case py_getitem (properties sp) field of
                Inl e \<Rightarrow> Inl e
              | Inr defn \<Rightarrow> safe_cast_to_string u (integration_type sp) field defn)
            fields')"

text \<open>
  The argument list of \<^verbatim>\<open>dbt_utils.surrogate_key([...])\<close> as the template writes it: the
  parent's hash id between single quotes when \<^verbatim>\<open>parent_hash_id\<close> is not empty, then the
  entries of \<^verbatim>\<open>fields\<close>. Every entry is followed by a comma.
\<close>

definition surrogate_key_inputs :: "string \<Rightarrow> string list \<Rightarrow> string list" where
  "surrogate_key_inputs parent_hash_id' fields' =
     (if parent_hash_id' \<noteq> [] then [sq @ parent_hash_id' @ sq] else []) @ fields'"

definition id_hashing_inputs :: "externals \<Rightarrow> stream_processor \<Rightarrow> py_error + string list" where
  "id_hashing_inputs u sp =
     (case safe_cast_to_strings u sp of
        Inl e \<Rightarrow> Inl e
      | Inr fields' \<Rightarrow> Inr (surrogate_key_inputs (parent_hash_id u sp) fields'))"

definition generate_id_hashing_model :: "externals \<Rightarrow> stream_processor \<Rightarrow> string \<Rightarrow> py_error + string" where
  "generate_id_hashing_model u sp from_table =
     (case id_hashing_inputs u sp of
        Inl e \<Rightarrow> Inl e
      | Inr inputs \<Rightarrow>
          Inr (nl @ ''select'' @ nl @ ''    *,'' @ nl @ ''    {{ dbt_utils.surrogate_key([''
               @ concat (map (\<lambda>x. nl @ ''        '' @ x @ '','') inputs)
               @ nl @ ''    ]) }} as '' @ hash_id u sp
               @ nl @ ''from '' @ from_table
               @ nl @ sql_table_comment u sp
               @ nl @ ''    ''))"

subsection \<open>Final table\<close>

definition list_fields :: "externals \<Rightarrow> stream_processor \<Rightarrow> py_error + string list" where
  "list_fields u sp =
     (case declared_fields u sp of
        Inl e \<Rightarrow> Inl e
      | Inr fields' \<Rightarrow>
          Inr (map (\<lambda>field. normalize_column_name u (integration_type sp) field False) fields'))"

definition final_select :: "externals \<Rightarrow> stream_processor \<Rightarrow> py_error + select_item list" where
  "final_select u sp =
     (case list_fields u sp of
        Inl e \<Rightarrow> Inl e
      | Inr fields' \<Rightarrow>
          Inr (select_list (parent_hash_id u sp) (map Col fields')
                 [Col ''_airbyte_emitted_at'', Col (hash_id u sp)]))"

definition generate_final_model :: "externals \<Rightarrow> stream_processor \<Rightarrow> string \<Rightarrow> py_error + string" where
  "generate_final_model u sp from_table =
     (case final_select u sp of
        Inl e \<Rightarrow> Inl e
      | Inr select_items \<Rightarrow>
          Inr (nl @ ''select''
               @ render_select_list select_items
               @ nl @ ''from '' @ from_table
               @ nl @ sql_table_comment u sp
               @ nl @ ''    ''))"

section \<open>Writing the models\<close>

text \<open>
  What a run changes: the set of table names, the files written and the lines printed.
  \<^verbatim>\<open>output_sql_file\<close> is recorded by its arguments: the directory, the file name, the
  header and the SQL text handed to it. The bytes of the file (the header, then the lines
  of the SQL text that are not blank) are not computed.
\<close>

record artifact =
  artifact_dir :: string
  artifact_file :: string
  artifact_header :: string
  artifact_sql :: string

record world =
  tables :: "string set"
  artifacts :: "artifact list"
  stdout :: "string list"

text \<open>\<^verbatim>\<open>os.path.join\<close> of \<^verbatim>\<open>posixpath\<close>, two components at a time.\<close>

definition os_path_join :: "string \<Rightarrow> string \<Rightarrow> string" where
  "os_path_join a b =
     (if prefix ''/'' b then b
      else if a = [] \<or> suffix ''/'' a then a @ b
      else a @ ''/'' @ b)"

definition ref_table :: "string \<Rightarrow> string" where
  "ref_table name = ''{{ ref('' @ sq @ name @ sq @ '') }}''"

definition output_sql_file :: "world \<Rightarrow> string \<Rightarrow> string \<Rightarrow> string \<Rightarrow> string \<Rightarrow> string \<Rightarrow> world" where
  "output_sql_file w output_dir file_name json_path' header sql =
     w\<lparr>artifacts := artifacts w @
          [\<lparr>artifact_dir = output_dir, artifact_file = file_name,
            artifact_header = header, artifact_sql = sql\<rparr>],
       stdout := stdout w @ [''  Generating '' @ file_name @ '' from '' @ json_path']\<rparr>"

definition write_model ::
    "externals \<Rightarrow> stream_processor \<Rightarrow> world \<Rightarrow> string \<Rightarrow> bool \<Rightarrow> string \<Rightarrow> py_error + string \<times> world" where
  "write_model u sp w sql is_intermediate suffix' =
     (let output =
            (if is_intermediate
             then os_path_join (os_path_join (output_directory sp) ''airbyte_views'') (schema sp)
             else os_path_join (os_path_join (output_directory sp) ''airbyte_tables'') (schema sp));
          schema' = get_schema sp is_intermediate
      in case generate_new_table_name u sp (tables w) is_intermediate suffix' of
           Inl e \<Rightarrow> Inl e
         | Inr (name, tables') \<Rightarrow>
             Inr (ref_table name,
                  output_sql_file (w\<lparr>tables := tables'\<rparr>) output (name @ ''.sql'')
                    (current_json_path sp)
                    (''{{ config(schema='' @ sq @ schema' @ sq @ '') }}'' @ nl) sql))"

text \<open>
  \<^verbatim>\<open>process\<close> returns \<^verbatim>\<open>None\<close> for a processor whose \<^verbatim>\<open>properties\<close> are false, and
  the dictionary \<^verbatim>\<open>{from_table: children}\<close> of one entry otherwise. An exception ends
  the run; the model returns it in place of the result and the world.
\<close>

definition process ::
    "externals \<Rightarrow> stream_processor \<Rightarrow> string \<Rightarrow> world
      \<Rightarrow> py_error + (string \<times> stream_processor list) option \<times> world" where
  "process u sp from_table w =
     (if \<not> py_truthy (properties sp) then
        Inr (None,
             w\<lparr>stdout := stdout w @
                 [''  Ignoring substream '' @ sq @ stream_name sp @ sq @ '' from ''
                    @ current_json_path sp @ '' because properties list is empty'']\<rparr>)
      else
        (case generate_json_parsing_model u sp from_table of
           Inl e \<Rightarrow> Inl e
         | Inr sql1 \<Rightarrow>
        (case write_model u sp w sql1 True ''ab1'' of
           Inl e \<Rightarrow> Inl e
         | Inr (table1, w1) \<Rightarrow>
        (case generate_column_typing_model u sp table1 of
           Inl e \<Rightarrow> Inl e
         | Inr (sql2, printed) \<Rightarrow>
        (case write_model u sp (w1\<lparr>stdout := stdout w1 @ printed\<rparr>) sql2 True ''ab2'' of
           Inl e \<Rightarrow> Inl e
         | Inr (table2, w2) \<Rightarrow>
        (case generate_id_hashing_model u sp table2 of
           Inl e \<Rightarrow> Inl e
         | Inr sql3 \<Rightarrow>
        (case write_model u sp w2 sql3 True ''ab3'' of
           Inl e \<Rightarrow> Inl e
         | Inr (table3, w3) \<Rightarrow>
        (case generate_final_model u sp table3 of
           Inl e \<Rightarrow> Inl e
         | Inr sql4 \<Rightarrow>
        (case write_model u sp w3 sql4 False [] of
           Inl e \<Rightarrow> Inl e
         | Inr (table4, w4) \<Rightarrow>
        (case find_children_streams u sp of
           Inl e \<Rightarrow> Inl e
         | Inr children \<Rightarrow> Inr (Some (table4, children), w4)))))))))))"

section \<open>The specification's view of a schema\<close>

text \<open>
  The declared type of a property definition (none when the definition has no key
  \<^verbatim>\<open>type\<close>), whether a definition is a dictionary, and the properties of a schema that are
  not internal, in declaration order.
\<close>

fun declared_type :: "json \<Rightarrow> json option" where
  "declared_type (JDict kvs) = map_of kvs ''type''"
| "declared_type JNull = None"
| "declared_type (JBool b) = None"
| "declared_type (JInt i) = None"
| "declared_type (JFloat r) = None"
| "declared_type (JStr s) = None"
| "declared_type (JList xs) = None"

fun is_dict :: "json \<Rightarrow> bool" where
  "is_dict (JDict kvs) = True"
| "is_dict JNull = False"
| "is_dict (JBool b) = False"
| "is_dict (JInt i) = False"
| "is_dict (JFloat r) = False"
| "is_dict (JStr s) = False"
| "is_dict (JList xs) = False"

definition non_internal :: "externals \<Rightarrow> (string \<times> json) list \<Rightarrow> (string \<times> json) list" where
  "non_internal u kvs = filter (\<lambda>(field, defn). \<not> is_airbyte_column u field) kvs"

text \<open>
  The stringified form of a field as the specification words it: a boolean goes through
  the boolean helper, an array through the array helper, everything else (also a field
  with no declared type) is passed unchanged. The code's version is
  \<open>safe_cast_to_string\<close>.
\<close>

definition stringified :: "externals \<Rightarrow> destination_type \<Rightarrow> string \<Rightarrow> json \<Rightarrow> string" where
  "stringified u dt field defn =
     (let column = normalize_column_name u dt field True
      in case declared_type defn of
           None \<Rightarrow> column
         | Some t \<Rightarrow>
             if is_boolean u t then ''boolean_to_string('' @ column @ '')''
             else if is_array u t then ''array_to_string('' @ column @ '')''
             else column)"

text \<open>
  A sequence of allocations on one registry: each request is a call of
  \<^verbatim>\<open>generate_new_table_name\<close> by a processor, with its role and suffix. The names are
  returned in the order of the calls.
\<close>

fun allocate_all ::
    "externals \<Rightarrow> string set \<Rightarrow> (stream_processor \<times> bool \<times> string) list
      \<Rightarrow> py_error + string list \<times> string set" where
  "allocate_all u registry [] = Inr ([], registry)"
| "allocate_all u registry ((sp, is_intermediate, suffix') # requests) =
     (case generate_new_table_name u sp registry is_intermediate suffix' of
        Inl e \<Rightarrow> Inl e
      | Inr (name, registry') \<Rightarrow>
         (case allocate_all u registry' requests of
            Inl e \<Rightarrow> Inl e
          | Inr (names, registry'') \<Rightarrow> Inr (name # names, registry'')))"

text \<open>
  What a call of \<^verbatim>\<open>process\<close> leaves behind, without the SQL text: the result, the table
  names, the names of the files written and the lines printed.
\<close>

definition outcome ::
    "py_error + (string \<times> stream_processor list) option \<times> world
      \<Rightarrow> py_error + (string \<times> stream_processor list) option \<times> string set \<times> string list \<times> string list" where
  "outcome r =
     (case r of
        Inl e \<Rightarrow> Inl e
      | Inr (res, w) \<Rightarrow> Inr (res, tables w, map artifact_file (artifacts w), stdout w))"

section \<open>Concrete inputs\<close>

text \<open>
  One choice of the collaborators, for evaluating the model: a type is of a kind when it is
  the kind's name or contains it, a column is internal when its name starts with
  \<^verbatim>\<open>_airbyte_\<close>, a combining node has one of the keys \<^verbatim>\<open>anyOf\<close>, \<^verbatim>\<open>oneOf\<close>,
  \<^verbatim>\<open>allOf\<close>, \<^verbatim>\<open>jinja_call\<close> puts its argument between double braces, and the name
  transformer leaves a name as it is, between single quotes when it is for a Jinja call.
\<close>

definition type_is :: "string \<Rightarrow> json \<Rightarrow> bool" where
  "type_is name t = (t = JStr name \<or> py_contains name t = Inr True)"

definition sample_externals :: externals where
  "sample_externals = \<lparr>
     is_airbyte_column = prefix ''_airbyte_'',
     is_combining_node =
       (\<lambda>d. case py_items d of
              Inr kvs \<Rightarrow> set (map fst kvs) \<inter> {''anyOf'', ''oneOf'', ''allOf''} \<noteq> {}
            | Inl e \<Rightarrow> False),
     is_array = type_is ''array'',
     is_object = type_is ''object'',
     is_integer = type_is ''integer'',
     is_number = type_is ''number'',
     is_boolean = type_is ''boolean'',
     is_string = type_is ''string'',
     is_simple_property =
       (\<lambda>t. type_is ''string'' t \<or> type_is ''integer'' t \<or> type_is ''number'' t
              \<or> type_is ''boolean'' t),
     jinja_call = (\<lambda>command. ''{{ '' @ command @ '' }}''),
     normalize_table_name = (\<lambda>dt name. name),
     normalize_column_name = (\<lambda>dt name in_jinja. if in_jinja then sq @ name @ sq else name),
     repr_str_list = (\<lambda>xs. ''['' @ py_join '', '' (map (\<lambda>x. sq @ x @ sq) xs) @ '']''),
     str_json = (\<lambda>t. case t of JStr s \<Rightarrow> s | _ \<Rightarrow> ''object'')
   \<rparr>"

text \<open>
  The stream \<^verbatim>\<open>users\<close> with the properties
  \<^verbatim>\<open>{id: integer, name: string, addresses: array of {street: string, city: string}}\<close>.
\<close>

definition addresses_properties :: json where
  "addresses_properties =
     JDict [(''street'', JDict [(''type'', JStr ''string'')]),
            (''city'', JDict [(''type'', JStr ''string'')])]"

definition users_properties :: json where
  "users_properties =
     JDict [(''id'', JDict [(''type'', JStr ''integer'')]),
            (''name'', JDict [(''type'', JStr ''string'')]),
            (''addresses'',
               JDict [(''type'', JStr ''array''),
                      (''items'', JDict [(''type'', JStr ''object''),
                                         (''properties'', addresses_properties)])])]"

definition users :: stream_processor where
  "users = init ''users'' ''out'' POSTGRES ''raw'' ''public'' ''_airbyte_data'' users_properties"

definition addresses :: stream_processor where
  "addresses =
     initFromParent users ''addresses'' (''unnested_column_value('' @ sq @ ''addresses'' @ sq @ '')'')
       addresses_properties True"

definition empty_world :: world where
  "empty_world = \<lparr>tables = {}, artifacts = [], stdout = []\<rparr>"

text \<open>A stream whose only property is an internal column.\<close>

definition internal_only :: stream_processor where
  "internal_only =
     init ''events'' ''out'' POSTGRES ''raw'' ''public'' ''_airbyte_data''
       (JDict [(''_airbyte_emitted_at'', JDict [(''type'', JStr ''string'')])])"

text \<open>A stream without properties.\<close>

definition no_properties :: stream_processor where
  "no_properties = init ''events'' ''out'' POSTGRES ''raw'' ''public'' ''_airbyte_data'' (JDict [])"

text \<open>A stream with an object field, one with an array of strings, and one with a
  combining node.\<close>

definition profile_stream :: stream_processor where
  "profile_stream =
     init ''accounts'' ''out'' POSTGRES ''raw'' ''public'' ''_airbyte_data''
       (JDict [(''profile'',
                  JDict [(''type'', JStr ''object''),
                         (''properties'', JDict [(''age'', JDict [(''type'', JStr ''integer'')])])])])"

definition tags_stream :: stream_processor where
  "tags_stream =
     init ''posts'' ''out'' POSTGRES ''raw'' ''public'' ''_airbyte_data''
       (JDict [(''tags'',
                  JDict [(''type'', JStr ''array''),
                         (''items'', JDict [(''type'', JStr ''string'')])])])"

definition combining_stream :: stream_processor where
  "combining_stream =
     init ''events'' ''out'' POSTGRES ''raw'' ''public'' ''_airbyte_data''
       (JDict [(''payload'',
                  JDict [(''type'', JStr ''object''),
                         (''oneOf'', JList [JDict [(''type'', JStr ''string'')],
                                            JDict [(''type'', JStr ''integer'')]])])])"

text \<open>The child of \<open>profile_stream\<close> for its object field.\<close>

definition profile_child :: stream_processor where
  "profile_child =
     initFromParent profile_stream ''profile'' (sq @ ''profile'' @ sq)
       (JDict [(''age'', JDict [(''type'', JStr ''integer'')])]) False"

text \<open>The child of \<open>tags_stream\<close> for its array field.\<close>

definition tags_child :: stream_processor where
  "tags_child =
     initFromParent tags_stream ''tags'' (''unnested_column_value('' @ sq @ ''tags'' @ sq @ '')'')
       JNull True"

section \<open>Allocation of table names\<close>

lemma try_names_first:
  "\<forall>j \<in> set xs. cand j \<in> registry \<Longrightarrow> cand k \<notin> registry
    \<Longrightarrow> try_names cand registry cur (xs @ k # ys) = cand k"
  by (induction xs arbitrary: cur) (simp_all add: Let_def)

lemma try_names_exhausted:
  "\<forall>j \<in> set xs. cand j \<in> registry
    \<Longrightarrow> try_names cand registry cur xs = (if xs = [] then cur else cand (last xs))"
  by (induction xs arbitrary: cur) (simp_all add: Let_def)

lemma upt_split_at: "1 \<le> k \<Longrightarrow> k < n \<Longrightarrow> [1..<n] = [1..<k] @ k # [Suc k..<n]"
  by (metis less_imp_le_nat upt_add_eq_append upt_conv_Cons le_add_diff_inverse)

lemma generate_new_table_name_round:
  assumes role: "is_intermediate \<or> parent sp \<noteq> None"
    and k: "1 \<le> k" "k \<le> 999"
    and fresh: "candidate u sp sfx k \<notin> registry"
    and taken: "\<forall>j. 1 \<le> j \<and> j < k \<longrightarrow> candidate u sp sfx j \<in> registry"
  shows "generate_new_table_name u sp registry is_intermediate sfx
           = Inr (candidate u sp sfx k, insert (candidate u sp sfx k) registry)"
proof -
  from k have split: "[1..<1000] = [1..<k] @ k # [Suc k..<1000]"
    by (intro upt_split_at) simp_all
  from taken have "\<forall>j \<in> set [1..<k]. candidate u sp sfx j \<in> registry" by simp
  with fresh
  have "try_names (candidate u sp sfx) registry (table_name u sp) [1..<1000] = candidate u sp sfx k"
    unfolding split by (intro try_names_first) simp_all
  with role fresh show ?thesis
    by (auto simp: generate_new_table_name_def register_new_table_def Let_def
          simp del: One_nat_def)
qed

lemma generate_new_table_name_exhausted:
  assumes role: "is_intermediate \<or> parent sp \<noteq> None"
    and taken: "\<forall>j. 1 \<le> j \<and> j \<le> 999 \<longrightarrow> candidate u sp sfx j \<in> registry"
  shows "generate_new_table_name u sp registry is_intermediate sfx
           = Inl (KeyError (''Duplicate table '' @ candidate u sp sfx 999))"
proof -
  from taken have "\<forall>j \<in> set [1..<1000]. candidate u sp sfx j \<in> registry" by simp
  then have "try_names (candidate u sp sfx) registry (table_name u sp) [1..<1000]
               = candidate u sp sfx 999"
    by (simp add: try_names_exhausted)
  with role taken show ?thesis
    by (auto simp: generate_new_table_name_def register_new_table_def Let_def
          simp del: One_nat_def)
qed

lemma generate_new_table_name_top_level:
  "\<not> is_intermediate \<Longrightarrow> parent sp = None
    \<Longrightarrow> generate_new_table_name u sp registry is_intermediate sfx
          = (if table_name u sp \<in> registry
             then Inl (KeyError (''Duplicate table '' @ table_name u sp))
             else Inr (table_name u sp, insert (table_name u sp) registry))"
  by (simp add: generate_new_table_name_def register_new_table_def Let_def)

lemma candidate_users_1: "candidate sample_externals users ''ab1'' (Suc 0) = ''users_1_ab1''"
  by (simp add: candidate_def sample_externals_def users_def init_def table_name_def
        string_of_nat.simps)

lemma candidate_users_999: "candidate sample_externals users ''ab1'' 999 = ''users_999_ab1''"
  by (simp add: candidate_def sample_externals_def users_def init_def table_name_def
        string_of_nat.simps)

text \<open>
  C1. A call of \<^verbatim>\<open>generate_new_table_name\<close> for an intermediate table, or for the final
  table of a processor with a parent, runs through the candidates of the rounds 1 to 999 in
  increasing order: it returns the first candidate that is not in the registry, and the
  registry with this candidate inserted. When all 999 candidates are in the registry, the
  call raises (the \<^verbatim>\<open>KeyError\<close> of \<^verbatim>\<open>register_new_table\<close>, for the candidate of round
  999). The candidate of round \<open>i\<close> is the normalized name of the table name followed by
  \<^verbatim>\<open>_i\<close>, and by \<^verbatim>\<open>_suffix\<close> when a suffix is given.
\<close>

theorem generate_new_table_name_intermediate:
  assumes "is_intermediate \<or> parent sp \<noteq> None"
  shows "(\<forall>k. 1 \<le> k \<and> k \<le> 999 \<and> candidate u sp sfx k \<notin> registry
              \<and> (\<forall>j. 1 \<le> j \<and> j < k \<longrightarrow> candidate u sp sfx j \<in> registry)
            \<longrightarrow> generate_new_table_name u sp registry is_intermediate sfx
                = Inr (candidate u sp sfx k, insert (candidate u sp sfx k) registry))
       \<and> ((\<forall>j. 1 \<le> j \<and> j \<le> 999 \<longrightarrow> candidate u sp sfx j \<in> registry)
            \<longrightarrow> generate_new_table_name u sp registry is_intermediate sfx
                = Inl (KeyError (''Duplicate table '' @ candidate u sp sfx 999)))
       \<and> candidate u sp sfx i =
           normalize_table_name u (integration_type sp)
             (table_name u sp @ ''_'' @ string_of_nat i @ (if sfx \<noteq> [] then ''_'' @ sfx else []))"
proof (intro conjI allI impI)
  fix k
  assume "1 \<le> k \<and> k \<le> 999 \<and> candidate u sp sfx k \<notin> registry
              \<and> (\<forall>j. 1 \<le> j \<and> j < k \<longrightarrow> candidate u sp sfx j \<in> registry)"
  with assms show "generate_new_table_name u sp registry is_intermediate sfx
                = Inr (candidate u sp sfx k, insert (candidate u sp sfx k) registry)"
    by (intro generate_new_table_name_round) simp_all
next
  assume "\<forall>j. 1 \<le> j \<and> j \<le> 999 \<longrightarrow> candidate u sp sfx j \<in> registry"
  with assms show "generate_new_table_name u sp registry is_intermediate sfx
                = Inl (KeyError (''Duplicate table '' @ candidate u sp sfx 999))"
    by (intro generate_new_table_name_exhausted) simp_all
next
  show "candidate u sp sfx i =
           normalize_table_name u (integration_type sp)
             (table_name u sp @ ''_'' @ string_of_nat i @ (if sfx \<noteq> [] then ''_'' @ sfx else []))"
    by (simp add: candidate_def)
qed

theorem generate_new_table_name_intermediate_witness:
  "generate_new_table_name sample_externals users {} True ''ab1''
     = Inr (''users_1_ab1'', {''users_1_ab1''})
   \<and> generate_new_table_name sample_externals users
       (candidate sample_externals users ''ab1'' ` {1..999}) True ''ab1''
     = Inl (KeyError ''Duplicate table users_999_ab1'')"
proof -
  have a: "generate_new_table_name sample_externals users {} True ''ab1''
     = Inr (''users_1_ab1'', {''users_1_ab1''})"
    using generate_new_table_name_intermediate [of True users sample_externals "''ab1''" "{}",
        THEN conjunct1, THEN spec, of 1]
    by (simp add: candidate_users_1)
  have b: "generate_new_table_name sample_externals users
       (candidate sample_externals users ''ab1'' ` {1..999}) True ''ab1''
     = Inl (KeyError ''Duplicate table users_999_ab1'')"
    using generate_new_table_name_intermediate [of True users sample_externals "''ab1''"
        "candidate sample_externals users ''ab1'' ` {1..999}", THEN conjunct2, THEN conjunct1]
    by (simp add: candidate_users_999)
  show ?thesis using a b by simp
qed

section \<open>The registry of table names\<close>

lemma register_new_table_Inr:
  "register_new_table registry name = Inr registry'
    \<Longrightarrow> name \<notin> registry \<and> registry' = insert name registry"
  by (auto simp: register_new_table_def split: if_splits)

lemma generate_new_table_name_Inr:
  "generate_new_table_name u sp registry is_intermediate sfx = Inr (name, registry')
    \<Longrightarrow> name \<notin> registry \<and> registry' = insert name registry"
  by (auto simp: generate_new_table_name_def Let_def split: sum.splits
        dest: register_new_table_Inr)

lemma allocate_all_Inr:
  "allocate_all u registry requests = Inr (names, registry')
    \<Longrightarrow> distinct names \<and> set names \<inter> registry = {} \<and> registry' = registry \<union> set names"
proof (induction requests arbitrary: registry names)
  case Nil
  then show ?case by simp
next
  case (Cons r requests)
  obtain sp im sfx where r: "r = (sp, im, sfx)" by (cases r)
  from Cons.prems r obtain name registry1 rest where
    g: "generate_new_table_name u sp registry im sfx = Inr (name, registry1)"
    and a: "allocate_all u registry1 requests = Inr (rest, registry')"
    and n: "names = name # rest"
    by (auto split: sum.splits)
  from g have g': "name \<notin> registry" "registry1 = insert name registry"
    using generate_new_table_name_Inr by blast+
  from Cons.IH [OF a]
  have ih: "distinct rest" "set rest \<inter> registry1 = {}" "registry' = registry1 \<union> set rest"
    by blast+
  from g' ih n show ?case by auto
qed

lemma generate_new_table_name_round1:
  "is_intermediate \<or> parent sp \<noteq> None \<Longrightarrow> candidate u sp sfx (Suc 0) \<notin> registry
    \<Longrightarrow> generate_new_table_name u sp registry is_intermediate sfx
          = Inr (candidate u sp sfx (Suc 0), insert (candidate u sp sfx (Suc 0)) registry)"
  using generate_new_table_name_round [of is_intermediate sp 1 u sfx registry] by simp

text \<open>
  C2. The registry only grows. \<^verbatim>\<open>register_new_table\<close> inserts a name that was absent,
  and raises \<^verbatim>\<open>KeyError\<close> for a name that is present. A successful
  \<^verbatim>\<open>generate_new_table_name\<close> returns a name that was absent and the registry with
  exactly this name added. After a sequence of successful allocations the names returned
  are pairwise distinct, none of them was in the registry before, and the registry is the
  old one with these names added: nothing is removed or renamed.
\<close>

theorem registry_only_grows:
  "(register_new_table r1 n1 = Inr r1' \<longrightarrow> n1 \<notin> r1 \<and> r1' = insert n1 r1)
   \<and> (n2 \<in> r2 \<longrightarrow> register_new_table r2 n2 = Inl (KeyError (''Duplicate table '' @ n2)))
   \<and> (generate_new_table_name u sp r3 is_intermediate sfx = Inr (n3, r3')
        \<longrightarrow> n3 \<notin> r3 \<and> r3' = insert n3 r3)
   \<and> (allocate_all u r4 requests = Inr (names, r4')
        \<longrightarrow> distinct names \<and> set names \<inter> r4 = {} \<and> r4' = r4 \<union> set names)"
proof (intro conjI impI)
  assume "register_new_table r1 n1 = Inr r1'"
  then show "n1 \<notin> r1" "r1' = insert n1 r1"
    using register_new_table_Inr by blast+
next
  assume "n2 \<in> r2"
  then show "register_new_table r2 n2 = Inl (KeyError (''Duplicate table '' @ n2))"
    by (simp add: register_new_table_def)
next
  assume "generate_new_table_name u sp r3 is_intermediate sfx = Inr (n3, r3')"
  then show "n3 \<notin> r3" "r3' = insert n3 r3"
    using generate_new_table_name_Inr by blast+
next
  assume "allocate_all u r4 requests = Inr (names, r4')"
  then show "distinct names" "set names \<inter> r4 = {}" "r4' = r4 \<union> set names"
    using allocate_all_Inr by blast+
qed

lemma allocate_users:
  "allocate_all sample_externals {''users_1_ab1''}
     [(users, True, ''ab1''), (users, True, ''ab2''), (users, False, [])]
   = Inr ([''users_2_ab1'', ''users_1_ab2'', ''users''],
          {''users_1_ab1'', ''users_2_ab1'', ''users_1_ab2'', ''users''})"
proof -
  have c: "candidate sample_externals users ''ab1'' (Suc 0) = ''users_1_ab1''"
     "candidate sample_externals users ''ab1'' (Suc (Suc 0)) = ''users_2_ab1''"
     "candidate sample_externals users ''ab2'' (Suc 0) = ''users_1_ab2''"
     "table_name sample_externals users = ''users''"
    by (simp_all add: candidate_def sample_externals_def users_def init_def table_name_def
        string_of_nat.simps)
  have p: "parent users = None" by (simp add: users_def init_def)
  have taken: "\<forall>j. 1 \<le> j \<and> j < 2 \<longrightarrow> candidate sample_externals users ''ab1'' j \<in> {''users_1_ab1''}"
  proof (intro allI impI)
    fix j :: nat
    assume "1 \<le> j \<and> j < 2"
    then have "j = Suc 0" by arith
    then show "candidate sample_externals users ''ab1'' j \<in> {''users_1_ab1''}"
      by (simp add: c)
  qed
  have fresh: "candidate sample_externals users ''ab1'' 2 \<notin> {''users_1_ab1''}"
    by (simp add: numeral_2_eq_2 c)
  have g1: "generate_new_table_name sample_externals users {''users_1_ab1''} True ''ab1''
    = Inr (''users_2_ab1'', {''users_2_ab1'', ''users_1_ab1''})"
    using generate_new_table_name_round [OF _ _ _ fresh taken, of True]
    by (simp add: numeral_2_eq_2 c)
  show ?thesis
    by (simp add: g1 generate_new_table_name_round1 generate_new_table_name_top_level c p insert_commute)
qed

theorem registry_only_grows_witness:
  "register_new_table {''users''} ''orders'' = Inr {''users'', ''orders''}
   \<and> ''orders'' \<notin> {''users''}
   \<and> register_new_table {''users''} ''users'' = Inl (KeyError ''Duplicate table users'')
   \<and> generate_new_table_name sample_externals users {} True ''ab1''
       = Inr (''users_1_ab1'', {''users_1_ab1''})
   \<and> allocate_all sample_externals {''users_1_ab1''}
        [(users, True, ''ab1''), (users, True, ''ab2''), (users, False, [])]
       = Inr ([''users_2_ab1'', ''users_1_ab2'', ''users''],
              {''users_1_ab1'', ''users_2_ab1'', ''users_1_ab2'', ''users''})
   \<and> distinct [''users_2_ab1'', ''users_1_ab2'', ''users'']
   \<and> set [''users_2_ab1'', ''users_1_ab2'', ''users''] \<inter> {''users_1_ab1''} = {}"
proof -
  have r: "register_new_table {''users''} ''orders'' = Inr {''users'', ''orders''}"
    by (simp add: register_new_table_def insert_commute)
  have g: "generate_new_table_name sample_externals users {} True ''ab1''
       = Inr (''users_1_ab1'', {''users_1_ab1''})"
    by (simp add: generate_new_table_name_round1 candidate_users_1)
  note inst = registry_only_grows [of "{''users''}" "''orders''" "{''users'', ''orders''}"
      "''users''" "{''users''}" sample_externals users "{}" True "''ab1''" "''users_1_ab1''"
      "{''users_1_ab1''}" "{''users_1_ab1''}"
      "[(users, True, ''ab1''), (users, True, ''ab2''), (users, False, [])]"
      "[''users_2_ab1'', ''users_1_ab2'', ''users'']"
      "{''users_1_ab1'', ''users_2_ab1'', ''users_1_ab2'', ''users''}"]
  show ?thesis using inst r g allocate_users by simp
qed

section \<open>Streams without properties\<close>

lemma write_model_unfold:
  "write_model u sp w sql is_intermediate sfx =
     (case generate_new_table_name u sp (tables w) is_intermediate sfx of
        Inl e \<Rightarrow> Inl e
      | Inr (name, tables') \<Rightarrow>
          Inr (ref_table name,
               w\<lparr>tables := tables',
                 artifacts := artifacts w @
                   [\<lparr>artifact_dir =
                        os_path_join (os_path_join (output_directory sp)
                          (if is_intermediate then ''airbyte_views'' else ''airbyte_tables'')) (schema sp),
                      artifact_file = name @ ''.sql'',
                      artifact_header =
                        ''{{ config(schema='' @ sq @ get_schema sp is_intermediate @ sq @ '') }}'' @ nl,
                      artifact_sql = sql\<rparr>],
                 stdout := stdout w @
                   [''  Generating '' @ name @ ''.sql from '' @ current_json_path sp]\<rparr>))"
  by (simp add: write_model_def output_sql_file_def Let_def split: sum.splits)

lemmas process_unfold =
  process_def generate_json_parsing_model_def json_parsing_select_def extract_json_columns_def
  declared_fields_def py_keys_def write_model_unfold generate_new_table_name_round1
  generate_new_table_name_top_level candidate_def table_name_def string_of_nat.simps
  generate_column_typing_model_def column_typing_select_def cast_property_types_def
  generate_id_hashing_model_def id_hashing_inputs_def safe_cast_to_strings_def
  generate_final_model_def final_select_def list_fields_def find_children_streams_def
  children_of_field_def current_json_path_def

text \<open>
  C3, as the code has it. A processor whose \<^verbatim>\<open>properties\<close> are false (\<^verbatim>\<open>None\<close> or an
  empty dictionary) is skipped: \<^verbatim>\<open>process\<close> returns \<^verbatim>\<open>None\<close>, writes no file, adds no
  name to the registry and prints one line.
\<close>

theorem process_skips_empty_properties:
  assumes "\<not> py_truthy (properties sp)"
  shows "\<exists>w'. process u sp from_table w = Inr (None, w')
           \<and> tables w' = tables w \<and> artifacts w' = artifacts w
           \<and> stdout w' = stdout w @
                [''  Ignoring substream '' @ sq @ stream_name sp @ sq @ '' from ''
                   @ current_json_path sp @ '' because properties list is empty'']"
  using assms by (simp add: process_def)

theorem process_skips_empty_properties_witness:
  "\<not> py_truthy (properties no_properties)
   \<and> outcome (process sample_externals no_properties ''raw_events'' empty_world)
       = Inr (None, {}, [],
              [''  Ignoring substream '' @ sq @ ''events'' @ sq
                 @ '' from events because properties list is empty''])"
proof -
  have empty: "\<not> py_truthy (properties no_properties)"
    by (simp add: no_properties_def init_def)
  from process_skips_empty_properties [OF empty, of sample_externals "''raw_events''" empty_world]
  obtain w' where
    "process sample_externals no_properties ''raw_events'' empty_world = Inr (None, w')"
    "tables w' = tables empty_world" "artifacts w' = artifacts empty_world"
    "stdout w' = stdout empty_world @
       [''  Ignoring substream '' @ sq @ stream_name no_properties @ sq @ '' from ''
          @ current_json_path no_properties @ '' because properties list is empty'']"
    by blast
  then have "outcome (process sample_externals no_properties ''raw_events'' empty_world)
       = Inr (None, {}, [],
              [''  Ignoring substream '' @ sq @ ''events'' @ sq
                 @ '' from events because properties list is empty''])"
    by (simp add: outcome_def empty_world_def no_properties_def init_def current_json_path_def)
  with empty show ?thesis by simp
qed

text \<open>
  C3 as the specification states it fails: the stream \<open>internal_only\<close> has no property
  that is not internal, its property set is not empty, and \<^verbatim>\<open>process\<close> writes its four
  models and registers their four names.
\<close>

theorem process_internal_only_counterexample:
  "declared_fields sample_externals internal_only = Inr []
   \<and> outcome (process sample_externals internal_only ''raw_events'' empty_world) =
       Inr (Some (ref_table ''events'', []),
            {''events_1_ab1'', ''events_1_ab2'', ''events_1_ab3'', ''events''},
            [''events_1_ab1.sql'', ''events_1_ab2.sql'', ''events_1_ab3.sql'', ''events.sql''],
            [''  Generating events_1_ab1.sql from events'',
             ''  Generating events_1_ab2.sql from events'',
             ''  Generating events_1_ab3.sql from events'',
             ''  Generating events.sql from events''])"
proof -
  have a: "declared_fields sample_externals internal_only = Inr []"
    by (simp add: declared_fields_def py_keys_def internal_only_def init_def sample_externals_def)
  have b: "outcome (process sample_externals internal_only ''raw_events'' empty_world) =
       Inr (Some (ref_table ''events'', []),
            {''events_1_ab1'', ''events_1_ab2'', ''events_1_ab3'', ''events''},
            [''events_1_ab1.sql'', ''events_1_ab2.sql'', ''events_1_ab3.sql'', ''events.sql''],
            [''  Generating events_1_ab1.sql from events'',
             ''  Generating events_1_ab2.sql from events'',
             ''  Generating events_1_ab3.sql from events'',
             ''  Generating events.sql from events''])"
    by (simp add: outcome_def internal_only_def init_def empty_world_def sample_externals_def
          process_unfold insert_commute)
  from a b show ?thesis by simp
qed

section \<open>Columns of the models\<close>

lemma py_contains_dict: "py_contains k (JDict kvs) = Inr (map_of kvs k \<noteq> None)"
  by (simp add: map_of_eq_None_iff)

lemma map_result_map:
  "(\<And>x. x \<in> set xs \<Longrightarrow> f x = Inr (g x)) \<Longrightarrow> map_result f xs = Inr (map g xs)"
  by (induction xs) simp_all

lemma map_result_Inr_map:
  assumes "map_result f xs = Inr ys" and "\<And>x y. x \<in> set xs \<Longrightarrow> f x = Inr y \<Longrightarrow> h y = g x"
  shows "map h ys = map g xs"
  using assms
proof (induction xs arbitrary: ys)
  case Nil
  then show ?case by simp
next
  case (Cons x xs)
  then show ?case by (auto split: sum.splits)
qed

lemma map_of_distinct_pair:
  "distinct (map fst kvs) \<Longrightarrow> (k, v) \<in> set kvs \<Longrightarrow> map_of kvs k = Some v"
  by simp

lemma declared_fields_dict:
  "properties sp = JDict kvs \<Longrightarrow> declared_fields u sp = Inr (map fst (non_internal u kvs))"
  by (simp add: declared_fields_def py_keys_def non_internal_def filter_map comp_def case_prod_unfold)

lemma safe_cast_to_string_Inr:
  "safe_cast_to_string u dt field defn = Inr s \<Longrightarrow> s = stringified u dt field defn"
  by (cases defn)
     (auto simp: safe_cast_to_string_def stringified_def Let_def py_contains_dict
           simp del: py_contains.simps(1)
           split: sum.splits if_splits option.splits)

lemma safe_cast_to_string_dict:
  "is_dict defn \<Longrightarrow> safe_cast_to_string u dt field defn = Inr (stringified u dt field defn)"
  by (cases defn)
     (auto simp: safe_cast_to_string_def stringified_def Let_def py_contains_dict
           simp del: py_contains.simps(1)
           split: sum.splits if_splits option.splits)


lemma extract_json_column_dict:
  "is_dict defn \<Longrightarrow> \<exists>item. extract_json_column u dt field jcn defn = Inr item"
  by (cases defn)
     (auto simp: extract_json_column_def Let_def py_contains_dict simp del: py_contains.simps(1) split: sum.splits option.splits)


lemma cast_property_type_dict:
  "py_getitem (properties sp) field = Inr defn \<Longrightarrow> is_dict defn
    \<Longrightarrow> \<exists>r. cast_property_type u sp field = Inr r"
  by (cases defn)
     (auto simp: cast_property_type_def Let_def py_contains_dict simp del: py_contains.simps(1) split: sum.splits option.splits)





lemma non_internal_lookup:
  "\<forall>defn \<in> snd ` set kvs. is_dict defn \<Longrightarrow> field \<in> set (map fst (non_internal u kvs))
    \<Longrightarrow> \<exists>defn. map_of kvs field = Some defn \<and> is_dict defn"
proof -
  assume dicts: "\<forall>defn \<in> snd ` set kvs. is_dict defn"
    and "field \<in> set (map fst (non_internal u kvs))"
  then have "field \<in> fst ` set kvs" by (auto simp: non_internal_def)
  then obtain defn where m: "map_of kvs field = Some defn"
    by (metis map_of_eq_None_iff not_Some_eq)
  then have "(field, defn) \<in> set kvs" by (rule map_of_SomeD)
  with dicts have "is_dict defn" by force
  with m show ?thesis by blast
qed

lemma map_result_total:
  "(\<And>x. x \<in> set xs \<Longrightarrow> \<exists>y. f x = Inr y) \<Longrightarrow> \<exists>ys. map_result f xs = Inr ys"
proof (induction xs)
  case Nil
  then show ?case by simp
next
  case (Cons x xs)
  then obtain y ys where "f x = Inr y" "map_result f xs = Inr ys"
    by (meson list.set_intros)
  then show ?case by simp
qed

lemma selects_total:
  assumes props: "properties sp = JDict kvs" and dicts: "\<forall>defn \<in> snd ` set kvs. is_dict defn"
  shows "\<exists>raw typed printed final inputs.
           json_parsing_select u sp = Inr raw \<and> column_typing_select u sp = Inr (typed, printed)
           \<and> final_select u sp = Inr final \<and> id_hashing_inputs u sp = Inr inputs"
proof -
  let ?names = "map fst (non_internal u kvs)"
  have "\<exists>ys. map_result (\<lambda>field.
              case py_getitem (properties sp) field of
                Inl e \<Rightarrow> Inl e
              | Inr defn \<Rightarrow>
                  extract_json_column u (integration_type sp) field (json_column_name sp) defn)
            ?names = Inr ys"
  proof (rule map_result_total)
    fix field assume "field \<in> set ?names"
    with dicts obtain defn where "map_of kvs field = Some defn" "is_dict defn"
      using non_internal_lookup by blast
    then show "\<exists>y. (case py_getitem (properties sp) field of
                Inl e \<Rightarrow> Inl e
              | Inr defn \<Rightarrow>
                  extract_json_column u (integration_type sp) field (json_column_name sp) defn) = Inr y"
      using extract_json_column_dict [of defn u "integration_type sp" field "json_column_name sp"]
      by (simp add: props)
  qed
  then have 1: "\<exists>raw. json_parsing_select u sp = Inr raw"
    by (auto simp: json_parsing_select_def extract_json_columns_def declared_fields_dict [OF props])
  have "\<exists>ys. map_result (cast_property_type u sp) ?names = Inr ys"
  proof (rule map_result_total)
    fix field assume "field \<in> set ?names"
    with dicts obtain defn where "map_of kvs field = Some defn" "is_dict defn"
      using non_internal_lookup by blast
    then show "\<exists>y. cast_property_type u sp field = Inr y"
      using cast_property_type_dict [of sp field defn u] by (simp add: props)
  qed
  then have 2: "\<exists>typed printed. column_typing_select u sp = Inr (typed, printed)"
    by (auto simp: column_typing_select_def cast_property_types_def declared_fields_dict [OF props])
  have 3: "\<exists>final. final_select u sp = Inr final"
    by (simp add: final_select_def list_fields_def declared_fields_dict [OF props])
  have "\<exists>ys. map_result (\<lambda>field.
              case py_getitem (properties sp) field of
                Inl e \<Rightarrow> Inl e
              | Inr defn \<Rightarrow> safe_cast_to_string u (integration_type sp) field defn)
            ?names = Inr ys"
  proof (rule map_result_total)
    fix field assume "field \<in> set ?names"
    with dicts obtain defn where "map_of kvs field = Some defn" "is_dict defn"
      using non_internal_lookup by blast
    then show "\<exists>y. (case py_getitem (properties sp) field of
                Inl e \<Rightarrow> Inl e
              | Inr defn \<Rightarrow> safe_cast_to_string u (integration_type sp) field defn) = Inr y"
      using safe_cast_to_string_dict [of defn u "integration_type sp" field]
      by (simp add: props)
  qed
  then have 4: "\<exists>inputs. id_hashing_inputs u sp = Inr inputs"
    by (auto simp: id_hashing_inputs_def safe_cast_to_strings_def declared_fields_dict [OF props])
  from 1 2 3 4 show ?thesis by blast
qed

lemma models_total:
  assumes props: "properties sp = JDict kvs" and dicts: "\<forall>defn \<in> snd ` set kvs. is_dict defn"
  shows "\<exists>sql1 sql2 printed sql3 sql4.
           generate_json_parsing_model u sp from_table = Inr sql1
           \<and> generate_column_typing_model u sp from_table = Inr (sql2, printed)
           \<and> generate_id_hashing_model u sp from_table = Inr sql3
           \<and> generate_final_model u sp from_table = Inr sql4"
proof -
  from selects_total [OF props dicts, of u] obtain raw typed printed final inputs where
    "json_parsing_select u sp = Inr raw" "column_typing_select u sp = Inr (typed, printed)"
    "final_select u sp = Inr final" "id_hashing_inputs u sp = Inr inputs"
    by blast
  then show ?thesis
    by (simp add: generate_json_parsing_model_def generate_column_typing_model_def
          generate_id_hashing_model_def generate_final_model_def)
qed





lemma sample_externals_simps:
  "is_airbyte_column sample_externals = prefix ''_airbyte_''"
  "is_combining_node sample_externals d =
     (case py_items d of
        Inr kvs \<Rightarrow> set (map fst kvs) \<inter> {''anyOf'', ''oneOf'', ''allOf''} \<noteq> {}
      | Inl e \<Rightarrow> False)"
  "is_array sample_externals = type_is ''array''"
  "is_object sample_externals = type_is ''object''"
  "is_integer sample_externals = type_is ''integer''"
  "is_number sample_externals = type_is ''number''"
  "is_boolean sample_externals = type_is ''boolean''"
  "is_string sample_externals = type_is ''string''"
  "is_simple_property sample_externals t =
     (type_is ''string'' t \<or> type_is ''integer'' t \<or> type_is ''number'' t \<or> type_is ''boolean'' t)"
  "jinja_call sample_externals command = ''{{ '' @ command @ '' }}''"
  "normalize_table_name sample_externals dt name = name"
  "normalize_column_name sample_externals dt name in_jinja = (if in_jinja then sq @ name @ sq else name)"
  by (simp_all add: sample_externals_def)

lemma type_is_simps:
  "type_is name (JStr s) = (s = name \<or> is_substring name s)"
  "type_is name (JDict kvs) = (name \<in> fst ` set kvs)"
  "type_is name (JList xs) = (JStr name \<in> set xs)"
  by (auto simp: type_is_def)

lemma addresses_facts:
  "properties addresses =
     JDict [(''street'', JDict [(''type'', JStr ''string'')]),
            (''city'', JDict [(''type'', JStr ''string'')])]"
  "parent addresses = Some users"
  "integration_type addresses = POSTGRES"
  "hash_id sample_externals users = ''_airbyte_users_hashid''"
  "hash_id sample_externals addresses = ''_airbyte_addresses_hashid''"
  by (simp_all add: addresses_def initFromParent_def addresses_properties_def users_def init_def
        hash_id_def table_name_def sample_externals_def)

lemma users_facts:
  "properties users = JDict [(''id'', JDict [(''type'', JStr ''integer'')]),
            (''name'', JDict [(''type'', JStr ''string'')]),
            (''addresses'',
               JDict [(''type'', JStr ''array''),
                      (''items'', JDict [(''type'', JStr ''object''),
                                         (''properties'', addresses_properties)])])]"
  "parent users = None" "integration_type users = POSTGRES"
  "hash_id sample_externals users = ''_airbyte_users_hashid''"
  "sql_table_comment sample_externals users = ''-- users''"
  "sql_table_comment sample_externals addresses = ''-- addresses from users/addresses''"
  by (simp_all add: users_def init_def users_properties_def hash_id_def table_name_def
        sample_externals_simps sql_table_comment_def addresses_def initFromParent_def
        current_json_path_def)


lemma id_hashing_inputs_entries:
  assumes props: "properties sp = JDict kvs"
    and keys: "distinct (map fst kvs)"
    and hid: "\<forall>p. parent sp = Some p \<longrightarrow> hash_id u p \<noteq> []"
    and inp: "id_hashing_inputs u sp = Inr inputs"
  shows "inputs =
           (case parent sp of Some p \<Rightarrow> [sq @ hash_id u p @ sq] | None \<Rightarrow> [])
           @ map (\<lambda>(field, defn). stringified u (integration_type sp) field defn)
               (non_internal u kvs)"
proof -
  from inp obtain fs where fs: "map_result (\<lambda>field.
              case py_getitem (properties sp) field of
                Inl e \<Rightarrow> Inl e
              | Inr defn \<Rightarrow> safe_cast_to_string u (integration_type sp) field defn)
            (map fst (non_internal u kvs)) = Inr fs"
    and inputs: "inputs = surrogate_key_inputs (parent_hash_id u sp) fs"
    by (auto simp: id_hashing_inputs_def safe_cast_to_strings_def declared_fields_dict [OF props]
          split: sum.splits)
  have "map (\<lambda>s. s) fs
        = map (\<lambda>field. stringified u (integration_type sp) field (the (map_of kvs field)))
            (map fst (non_internal u kvs))"
    using fs
    by (rule map_result_Inr_map)
       (auto simp: props split: sum.splits option.splits dest: safe_cast_to_string_Inr)
  also have "\<dots> = map (\<lambda>(field, defn). stringified u (integration_type sp) field defn)
                      (non_internal u kvs)"
    using keys by (auto simp: non_internal_def case_prod_unfold)
  finally have "fs = map (\<lambda>(field, defn). stringified u (integration_type sp) field defn)
                      (non_internal u kvs)"
    by simp
  then show ?thesis
    using hid by (auto simp: inputs surrogate_key_inputs_def parent_hash_id_def split: option.splits)
qed

text \<open>
  C5. The text of the hashing model calls the surrogate key on the parent's hash id
  (between single quotes, when there is a parent) followed by the stringified form of
  every property that is not internal, in declaration order; so the list of a child node
  begins with its parent's hash id. The stringified form is the normalized name for a
  field with no declared type, the boolean helper for a boolean type, the array helper for
  an array type that is not also boolean, and the normalized name otherwise. For a type
  that the helpers call both boolean and array the code's order gives the boolean helper;
  whether there is such a type is up to the helpers, which are outside the module. When
  every property definition is a dictionary the model is produced.
\<close>

theorem id_hashing_inputs_spec:
  assumes props: "properties sp = JDict kvs"
    and keys: "distinct (map fst kvs)"
    and hid: "\<forall>p. parent sp = Some p \<longrightarrow> hash_id u p \<noteq> []"
  shows "(\<forall>from_table sql.
            generate_id_hashing_model u sp from_table = Inr sql
            \<longrightarrow> sql = nl @ ''select'' @ nl @ ''    *,'' @ nl @ ''    {{ dbt_utils.surrogate_key([''
                      @ concat (map (\<lambda>x. nl @ ''        '' @ x @ '','')
                          ((case parent sp of Some p \<Rightarrow> [sq @ hash_id u p @ sq] | None \<Rightarrow> [])
                           @ map (\<lambda>(field, defn). stringified u (integration_type sp) field defn)
                               (non_internal u kvs)))
                      @ nl @ ''    ]) }} as '' @ hash_id u sp
                      @ nl @ ''from '' @ from_table
                      @ nl @ sql_table_comment u sp
                      @ nl @ ''    '')
       \<and> ((\<forall>defn \<in> snd ` set kvs. is_dict defn)
            \<longrightarrow> (\<forall>from_table. \<exists>sql. generate_id_hashing_model u sp from_table = Inr sql))
       \<and> (\<forall>field defn.
            declared_type defn = None
            \<longrightarrow> stringified u dt field defn = normalize_column_name u dt field True)
       \<and> (\<forall>field defn t.
            declared_type defn = Some t
            \<longrightarrow> (is_boolean u t
                   \<longrightarrow> stringified u dt field defn
                         = ''boolean_to_string('' @ normalize_column_name u dt field True @ '')'')
              \<and> (is_array u t \<and> \<not> is_boolean u t
                   \<longrightarrow> stringified u dt field defn
                         = ''array_to_string('' @ normalize_column_name u dt field True @ '')'')
              \<and> (\<not> is_boolean u t \<and> \<not> is_array u t
                   \<longrightarrow> stringified u dt field defn = normalize_column_name u dt field True))"
proof (intro conjI allI impI)
  fix from_table sql
  assume "generate_id_hashing_model u sp from_table = Inr sql"
  then obtain inputs where inp: "id_hashing_inputs u sp = Inr inputs"
    and sql: "sql = nl @ ''select'' @ nl @ ''    *,'' @ nl @ ''    {{ dbt_utils.surrogate_key([''
               @ concat (map (\<lambda>x. nl @ ''        '' @ x @ '','') inputs)
               @ nl @ ''    ]) }} as '' @ hash_id u sp
               @ nl @ ''from '' @ from_table
               @ nl @ sql_table_comment u sp
               @ nl @ ''    ''"
    by (auto simp: generate_id_hashing_model_def split: sum.splits)
  show "sql = nl @ ''select'' @ nl @ ''    *,'' @ nl @ ''    {{ dbt_utils.surrogate_key([''
                      @ concat (map (\<lambda>x. nl @ ''        '' @ x @ '','')
                          ((case parent sp of Some p \<Rightarrow> [sq @ hash_id u p @ sq] | None \<Rightarrow> [])
                           @ map (\<lambda>(field, defn). stringified u (integration_type sp) field defn)
                               (non_internal u kvs)))
                      @ nl @ ''    ]) }} as '' @ hash_id u sp
                      @ nl @ ''from '' @ from_table
                      @ nl @ sql_table_comment u sp
                      @ nl @ ''    ''"
    unfolding sql id_hashing_inputs_entries [OF props keys hid inp] by (rule refl)
next
  fix from_table
  assume "\<forall>defn \<in> snd ` set kvs. is_dict defn"
  from models_total [OF props this, of u from_table]
  show "\<exists>sql. generate_id_hashing_model u sp from_table = Inr sql"
    by (elim exE conjE) (rule exI)
next
  fix field defn
  assume "declared_type defn = None"
  then show "stringified u dt field defn = normalize_column_name u dt field True"
    by (simp add: stringified_def)
next
  fix field defn t
  assume t: "declared_type defn = Some t"
  {
    assume "is_boolean u t"
    with t show "stringified u dt field defn
                         = ''boolean_to_string('' @ normalize_column_name u dt field True @ '')''"
      by (simp add: stringified_def)
  }
  {
    assume "is_array u t \<and> \<not> is_boolean u t"
    with t show "stringified u dt field defn
                         = ''array_to_string('' @ normalize_column_name u dt field True @ '')''"
      by (simp add: stringified_def)
  }
  {
    assume "\<not> is_boolean u t \<and> \<not> is_array u t"
    with t show "stringified u dt field defn = normalize_column_name u dt field True"
      by (simp add: stringified_def)
  }
qed

theorem id_hashing_inputs_spec_witness:
  "generate_id_hashing_model sample_externals addresses ''T''
     = Inr (nl @ ''select'' @ nl @ ''    *,'' @ nl @ ''    {{ dbt_utils.surrogate_key([''
            @ nl @ ''        '' @ sq @ ''_airbyte_users_hashid'' @ sq @ '',''
            @ nl @ ''        '' @ sq @ ''street'' @ sq @ '',''
            @ nl @ ''        '' @ sq @ ''city'' @ sq @ '',''
            @ nl @ ''    ]) }} as _airbyte_addresses_hashid''
            @ nl @ ''from T''
            @ nl @ ''-- addresses from users/addresses''
            @ nl @ ''    '')
   \<and> generate_id_hashing_model sample_externals users ''T''
     = Inr (nl @ ''select'' @ nl @ ''    *,'' @ nl @ ''    {{ dbt_utils.surrogate_key([''
            @ nl @ ''        '' @ sq @ ''id'' @ sq @ '',''
            @ nl @ ''        '' @ sq @ ''name'' @ sq @ '',''
            @ nl @ ''        array_to_string('' @ sq @ ''addresses'' @ sq @ ''),''
            @ nl @ ''    ]) }} as _airbyte_users_hashid''
            @ nl @ ''from T''
            @ nl @ ''-- users''
            @ nl @ ''    '')"
proof -
  have hid: "\<forall>p. parent addresses = Some p \<longrightarrow> hash_id sample_externals p \<noteq> []"
    by (simp add: addresses_facts)
  have keys: "distinct (map fst [(''street'', JDict [(''type'', JStr ''string'')]),
            (''city'', JDict [(''type'', JStr ''string'')])])"
    by simp
  have dicts: "\<forall>defn \<in> snd ` set [(''street'', JDict [(''type'', JStr ''string'')]),
            (''city'', JDict [(''type'', JStr ''string'')])]. is_dict defn"
    by simp
  note spec_a = id_hashing_inputs_spec [OF addresses_facts(1) keys hid]
  from spec_a [THEN conjunct2, THEN conjunct1, THEN mp, OF dicts, THEN spec, of "''T''"]
  obtain sql where g: "generate_id_hashing_model sample_externals addresses ''T'' = Inr sql"
    by (elim exE)
  from spec_a [THEN conjunct1, THEN spec, THEN spec, THEN mp, OF g]
  have "sql = nl @ ''select'' @ nl @ ''    *,'' @ nl @ ''    {{ dbt_utils.surrogate_key([''
            @ nl @ ''        '' @ sq @ ''_airbyte_users_hashid'' @ sq @ '',''
            @ nl @ ''        '' @ sq @ ''street'' @ sq @ '',''
            @ nl @ ''        '' @ sq @ ''city'' @ sq @ '',''
            @ nl @ ''    ]) }} as _airbyte_addresses_hashid''
            @ nl @ ''from T''
            @ nl @ ''-- addresses from users/addresses''
            @ nl @ ''    ''"
    by (simp add: addresses_facts users_facts non_internal_def stringified_def
          sample_externals_simps type_is_simps)
  with g have a: "generate_id_hashing_model sample_externals addresses ''T''
     = Inr (nl @ ''select'' @ nl @ ''    *,'' @ nl @ ''    {{ dbt_utils.surrogate_key([''
            @ nl @ ''        '' @ sq @ ''_airbyte_users_hashid'' @ sq @ '',''
            @ nl @ ''        '' @ sq @ ''street'' @ sq @ '',''
            @ nl @ ''        '' @ sq @ ''city'' @ sq @ '',''
            @ nl @ ''    ]) }} as _airbyte_addresses_hashid''
            @ nl @ ''from T''
            @ nl @ ''-- addresses from users/addresses''
            @ nl @ ''    '')"
    by simp
  have ukeys: "distinct (map fst [(''id'', JDict [(''type'', JStr ''integer'')]),
            (''name'', JDict [(''type'', JStr ''string'')]),
            (''addresses'',
               JDict [(''type'', JStr ''array''),
                      (''items'', JDict [(''type'', JStr ''object''),
                                         (''properties'', addresses_properties)])])])"
    by simp
  have udicts: "\<forall>defn \<in> snd ` set [(''id'', JDict [(''type'', JStr ''integer'')]),
            (''name'', JDict [(''type'', JStr ''string'')]),
            (''addresses'',
               JDict [(''type'', JStr ''array''),
                      (''items'', JDict [(''type'', JStr ''object''),
                                         (''properties'', addresses_properties)])])]. is_dict defn"
    by simp
  have uhid: "\<forall>p. parent users = Some p \<longrightarrow> hash_id sample_externals p \<noteq> []"
    by (simp add: users_facts)
  note spec_u = id_hashing_inputs_spec [OF users_facts(1) ukeys uhid]
  from spec_u [THEN conjunct2, THEN conjunct1, THEN mp, OF udicts, THEN spec, of "''T''"]
  obtain usql where ug: "generate_id_hashing_model sample_externals users ''T'' = Inr usql"
    by (elim exE)
  from spec_u [THEN conjunct1, THEN spec, THEN spec, THEN mp, OF ug]
  have "usql = nl @ ''select'' @ nl @ ''    *,'' @ nl @ ''    {{ dbt_utils.surrogate_key([''
            @ nl @ ''        '' @ sq @ ''id'' @ sq @ '',''
            @ nl @ ''        '' @ sq @ ''name'' @ sq @ '',''
            @ nl @ ''        array_to_string('' @ sq @ ''addresses'' @ sq @ ''),''
            @ nl @ ''    ]) }} as _airbyte_users_hashid''
            @ nl @ ''from T''
            @ nl @ ''-- users''
            @ nl @ ''    ''"
    by (simp add: users_facts non_internal_def stringified_def
          sample_externals_simps type_is_simps)
  with ug have b: "generate_id_hashing_model sample_externals users ''T''
     = Inr (nl @ ''select'' @ nl @ ''    *,'' @ nl @ ''    {{ dbt_utils.surrogate_key([''
            @ nl @ ''        '' @ sq @ ''id'' @ sq @ '',''
            @ nl @ ''        '' @ sq @ ''name'' @ sq @ '',''
            @ nl @ ''        array_to_string('' @ sq @ ''addresses'' @ sq @ ''),''
            @ nl @ ''    ]) }} as _airbyte_users_hashid''
            @ nl @ ''from T''
            @ nl @ ''-- users''
            @ nl @ ''    '')"
    by simp
  from a b show ?thesis by (intro conjI)
qed

section \<open>Children of a field\<close>

lemma spawn_children_fields:
  "c \<in> set (spawn_children sp field accessor nested cps)
    \<Longrightarrow> parent c = Some sp \<and> stream_name c = field \<and> json_column_name c = accessor
        \<and> is_nested_array c = nested"
  by (auto simp: spawn_children_def initFromParent_def split: if_splits)

lemma children_of_field_array_objects:
  assumes "\<not> is_airbyte_column u field"
    and "py_getitem (properties sp) field = Inr (JDict kvs)"
    and "\<not> is_combining_node u (JDict kvs)"
    and "map_of kvs ''type'' = Some t" "\<not> is_object u t" "is_array u t"
    and "map_of kvs ''items'' = Some (JDict ikvs)"
    and "map_of ikvs ''items'' = None" "map_of ikvs ''properties'' = Some props"
  shows "children_of_field u sp field
           = Inr [initFromParent sp field
                    (''unnested_column_value(''
                       @ normalize_column_name u (integration_type sp) field True @ '')'')
                    props True]"
  using assms
  by (simp add: children_of_field_def array_children_def spawn_children_def py_contains_dict
        del: py_contains.simps(1))

lemma children_of_field_object:
  assumes "\<not> is_airbyte_column u field"
    and "py_getitem (properties sp) field = Inr (JDict kvs)"
    and "\<not> is_combining_node u (JDict kvs)"
    and "map_of kvs ''type'' = None \<or> (\<exists>t. map_of kvs ''type'' = Some t \<and> is_object u t)"
    and "map_of kvs ''items'' = None" "map_of kvs ''properties'' = Some props"
  shows "children_of_field u sp field = Inr [initFromParent sp field (sq @ field @ sq) props False]"
  using assms
  by (auto simp: children_of_field_def object_children_def spawn_children_def py_contains_dict
        simp del: py_contains.simps(1))

lemma children_of_field_flags:
  assumes "\<not> is_airbyte_column u field"
    and "py_getitem (properties sp) field = Inr (JDict kvs)"
    and "children_of_field u sp field = Inr cs" and "c \<in> set cs"
  shows "parent c = Some sp \<and> stream_name c = field
         \<and> (if map_of kvs ''type'' = None \<or> (\<exists>t. map_of kvs ''type'' = Some t \<and> is_object u t)
            then \<not> is_nested_array c \<and> json_column_name c = sq @ field @ sq
            else is_nested_array c
               \<and> json_column_name c =
                   ''unnested_column_value(''
                     @ normalize_column_name u (integration_type sp) field True @ '')'')"
  using assms
  by (auto simp: children_of_field_def object_children_def array_children_def py_contains_dict
           Let_def
        simp del: py_contains.simps(1)
        split: if_splits sum.splits option.splits dest!: spawn_children_fields)


lemma children_of_field_names:
  "children_of_field u sp f = Inr cs \<Longrightarrow> c \<in> set cs \<Longrightarrow> stream_name c = f \<and> parent c = Some sp"
  by (auto simp: children_of_field_def object_children_def array_children_def Let_def
        split: if_splits sum.splits dest!: spawn_children_fields)

lemma children_filter:
  assumes "map_result (children_of_field u sp) fs = Inr css" and "distinct fs"
    and "field \<in> set fs" and "children_of_field u sp field = Inr cs"
  shows "filter (\<lambda>c. stream_name c = field) (concat css) = cs"
  using assms
proof (induction fs arbitrary: css)
  case Nil
  then show ?case by simp
next
  case (Cons f fs)
  from Cons.prems(1) obtain cs0 css' where
    r0: "children_of_field u sp f = Inr cs0"
    and r: "map_result (children_of_field u sp) fs = Inr css'"
    and css: "css = cs0 # css'"
    by (auto split: sum.splits)
  have names0: "\<forall>c \<in> set cs0. stream_name c = f"
    using children_of_field_names [OF r0] by blast
  show ?case
  proof (cases "f = field")
    case True
    with r0 Cons.prems(4) have cs0: "cs0 = cs" by simp
    from True Cons.prems(2) have notin: "field \<notin> set fs" by simp
    have "filter (\<lambda>c. stream_name c = field) (concat css') = []"
      using r notin
    proof (induction fs arbitrary: css')
      case Nil
      then show ?case by simp
    next
      case (Cons g gs)
      from Cons.prems(1) obtain d ds where
        d: "children_of_field u sp g = Inr d"
        and ds: "map_result (children_of_field u sp) gs = Inr ds"
        and e: "css' = d # ds"
        by (auto split: sum.splits)
      have "\<forall>c \<in> set d. stream_name c = g"
        using children_of_field_names [OF d] by blast
      with Cons.prems(2) have "filter (\<lambda>c. stream_name c = field) d = []"
        by (auto simp: filter_empty_conv)
      moreover from Cons.IH [OF ds] Cons.prems(2)
      have "filter (\<lambda>c. stream_name c = field) (concat ds) = []" by simp
      ultimately show ?case by (simp add: e)
    qed
    moreover from names0 True have "filter (\<lambda>c. stream_name c = field) cs0 = cs0"
      by (simp add: filter_id_conv)
    ultimately show ?thesis by (simp add: css cs0)
  next
    case False
    with names0 have "filter (\<lambda>c. stream_name c = field) cs0 = []"
      by (auto simp: filter_empty_conv)
    moreover from False Cons.prems have "field \<in> set fs" "distinct fs" by simp_all
    from Cons.IH [OF r this(2) this(1) Cons.prems(4)]
    have "filter (\<lambda>c. stream_name c = field) (concat css') = cs" .
    ultimately show ?thesis by (simp add: css)
  qed
qed

lemma find_children_streams_field:
  assumes props: "properties sp = JDict pkvs" and keys: "distinct (map fst pkvs)"
    and field: "map_of pkvs field = Some defn"
    and round: "children_of_field u sp field = Inr cs"
    and run: "find_children_streams u sp = Inr children"
  shows "filter (\<lambda>c. stream_name c = field) children = cs"
proof -
  from run props obtain css where
    r: "map_result (children_of_field u sp) (map fst pkvs) = Inr css"
    and c: "children = concat css"
    by (auto simp: find_children_streams_def py_keys_def split: sum.splits)
  from field have "field \<in> set (map fst pkvs)"
    by (metis map_of_eq_None_iff option.distinct(1) set_map)
  from children_filter [OF r keys this round] c show ?thesis by simp
qed

lemma find_children_streams_total:
  assumes props: "properties sp = JDict pkvs"
    and rounds: "\<forall>f \<in> fst ` set pkvs. \<exists>cs. children_of_field u sp f = Inr cs"
  shows "\<exists>children. find_children_streams u sp = Inr children"
proof -
  have "\<exists>css. map_result (children_of_field u sp) (map fst pkvs) = Inr css"
    by (rule map_result_total) (use rounds in auto)
  then show ?thesis
    by (auto simp: find_children_streams_def py_keys_def props)
qed

lemma children_of_field_array:
  assumes "\<not> is_airbyte_column u field"
    and "py_getitem (properties sp) field = Inr (JDict kvs)"
    and "\<not> is_combining_node u (JDict kvs)"
    and "map_of kvs ''type'' = Some t" "\<not> is_object u t" "is_array u t"
    and "map_of kvs ''items'' = Some items"
    and "find_properties_object u [] field items = Inr cps"
  shows "children_of_field u sp field
           = Inr (map (\<lambda>(key, props).
                    initFromParent sp field
                      (''unnested_column_value(''
                         @ normalize_column_name u (integration_type sp) field True @ '')'')
                      props True) cps)"
  using assms
  by (simp add: children_of_field_def array_children_def spawn_children_def py_contains_dict
        del: py_contains.simps(1) find_properties_object.simps)






section \<open>Arrays of scalars\<close>

lemma find_properties_object_leaf:
  "map_of kvs ''items'' = None \<Longrightarrow> map_of kvs ''properties'' = None
    \<Longrightarrow> map_of kvs ''type'' = Some t \<Longrightarrow> is_simple_property u t
    \<Longrightarrow> find_properties_object u path field (JDict kvs) = Inr [(py_join ''_'' (path @ [field]), JNull)]"
  by simp

text \<open>
  C10. For a field declared as an array (and not as an object) whose \<^verbatim>\<open>items\<close> have a
  simple type and neither \<^verbatim>\<open>items\<close> nor \<^verbatim>\<open>properties\<close>, the children of
  \<^verbatim>\<open>find_children_streams\<close> for this field are exactly one, whose properties are
  \<^verbatim>\<open>None\<close>; \<^verbatim>\<open>process\<close> on this child returns \<^verbatim>\<open>None\<close>, writes no file and
  registers no table name. Child discovery returns when every round of its loop does.
\<close>

theorem leaf_array_child_is_skipped:
  assumes props: "properties sp = JDict pkvs" and keys: "distinct (map fst pkvs)"
    and field: "map_of pkvs field = Some (JDict kvs)"
    and internal: "\<not> is_airbyte_column u field"
    and combining: "\<not> is_combining_node u (JDict kvs)"
    and type: "map_of kvs ''type'' = Some t" "\<not> is_object u t" "is_array u t"
    and items: "map_of kvs ''items'' = Some (JDict ikvs)"
    and leaf: "map_of ikvs ''items'' = None" "map_of ikvs ''properties'' = None"
      "map_of ikvs ''type'' = Some item_type" "is_simple_property u item_type"
  shows "(\<forall>children.
            find_children_streams u sp = Inr children
            \<longrightarrow> (\<exists>child. filter (\<lambda>c. stream_name c = field) children = [child]
                   \<and> properties child = JNull \<and> parent child = Some sp \<and> is_nested_array child
                   \<and> (\<exists>w'. process u child from_table w = Inr (None, w')
                         \<and> artifacts w' = artifacts w \<and> tables w' = tables w)))
       \<and> ((\<forall>f \<in> fst ` set pkvs. \<exists>cs. children_of_field u sp f = Inr cs)
            \<longrightarrow> (\<exists>children. find_children_streams u sp = Inr children))"
proof (intro conjI allI impI)
  fix children
  assume run: "find_children_streams u sp = Inr children"
  let ?child = "initFromParent sp field
                    (''unnested_column_value(''
                       @ normalize_column_name u (integration_type sp) field True @ '')'')
                    JNull True"
  have getitem: "py_getitem (properties sp) field = Inr (JDict kvs)"
    by (simp add: props field)
  have fpo: "find_properties_object u [] field (JDict ikvs) = Inr [(field, JNull)]"
    using leaf by simp
  from find_children_streams_field [OF props keys field
      children_of_field_array [OF internal getitem combining type items fpo] run]
  have "filter (\<lambda>c. stream_name c = field) children = [?child]"
    by simp
  moreover have "properties ?child = JNull" "parent ?child = Some sp" "is_nested_array ?child"
    by (simp_all add: initFromParent_def)
  moreover have "\<exists>w'. process u ?child from_table w = Inr (None, w')
                 \<and> artifacts w' = artifacts w \<and> tables w' = tables w"
    by (simp add: process_def initFromParent_def)
  ultimately show "\<exists>child. filter (\<lambda>c. stream_name c = field) children = [child]
                   \<and> properties child = JNull \<and> parent child = Some sp \<and> is_nested_array child
                   \<and> (\<exists>w'. process u child from_table w = Inr (None, w')
                         \<and> artifacts w' = artifacts w \<and> tables w' = tables w)"
    by (intro exI [of _ ?child] conjI)
next
  assume "\<forall>f \<in> fst ` set pkvs. \<exists>cs. children_of_field u sp f = Inr cs"
  with find_children_streams_total [OF props]
  show "\<exists>children. find_children_streams u sp = Inr children" by blast
qed

lemma find_children_streams_tags:
  "find_children_streams sample_externals tags_stream = Inr [tags_child]"
  by (simp add: find_children_streams_def py_keys_def children_of_field_def array_children_def
        object_children_def spawn_children_def tags_stream_def init_def tags_child_def
        sample_externals_simps type_is_simps py_contains_dict
      del: py_contains.simps(1))

theorem leaf_array_child_is_skipped_witness:
  "find_children_streams sample_externals tags_stream = Inr [tags_child]
   \<and> properties tags_child = JNull
   \<and> outcome (process sample_externals tags_child ''raw_posts'' empty_world)
       = Inr (None, {}, [],
              [''  Ignoring substream '' @ sq @ ''tags'' @ sq
                 @ '' from posts/tags because properties list is empty''])"
proof -
  let ?kvs = "[(''type'', JStr ''array''), (''items'', JDict [(''type'', JStr ''string'')])]"
  have props: "properties tags_stream = JDict [(''tags'', JDict ?kvs)]"
    by (simp add: tags_stream_def init_def)
  have keys: "distinct (map fst [(''tags'', JDict ?kvs)])" by simp
  have f0: "map_of [(''tags'', JDict ?kvs)] ''tags'' = Some (JDict ?kvs)" by simp
  have a1: "\<not> is_airbyte_column sample_externals ''tags''"
    by (simp add: sample_externals_simps)
  have a3: "\<not> is_combining_node sample_externals (JDict ?kvs)"
    by (simp add: sample_externals_simps)
  have a4: "map_of ?kvs ''type'' = Some (JStr ''array'')"
    "\<not> is_object sample_externals (JStr ''array'')" "is_array sample_externals (JStr ''array'')"
    "map_of ?kvs ''items'' = Some (JDict [(''type'', JStr ''string'')])"
    "map_of [(''type'', JStr ''string'')] ''items'' = None"
    "map_of [(''type'', JStr ''string'')] ''properties'' = None"
    "map_of [(''type'', JStr ''string'')] ''type'' = Some (JStr ''string'')"
    "is_simple_property sample_externals (JStr ''string'')"
    by (simp_all add: sample_externals_simps type_is_simps)
  from leaf_array_child_is_skipped [OF props keys f0 a1 a3 a4, of "''raw_posts''" empty_world,
      THEN conjunct1, THEN spec, THEN mp, OF find_children_streams_tags]
  obtain child w' where c: "filter (\<lambda>c. stream_name c = ''tags'') [tags_child] = [child]"
    "properties child = JNull"
    "process sample_externals child ''raw_posts'' empty_world = Inr (None, w')"
    "artifacts w' = artifacts empty_world" "tables w' = tables empty_world"
    by (elim exE conjE)
  have name: "stream_name tags_child = ''tags''"
    by (simp add: tags_child_def initFromParent_def)
  from c(1) name have child: "child = tags_child" by simp
  have "stdout w' = [''  Ignoring substream '' @ sq @ ''tags'' @ sq
                   @ '' from posts/tags because properties list is empty'']"
    using c(3)
    by (auto simp: child tags_child_def process_def initFromParent_def tags_stream_def init_def
          empty_world_def current_json_path_def)
  with c(2-5) have "properties tags_child = JNull"
    "outcome (process sample_externals tags_child ''raw_posts'' empty_world)
       = Inr (None, {}, [],
              [''  Ignoring substream '' @ sq @ ''tags'' @ sq
                 @ '' from posts/tags because properties list is empty''])"
    by (simp_all add: child outcome_def empty_world_def)
  with find_children_streams_tags show ?thesis by (intro conjI)
qed

section \<open>Combining nodes\<close>

lemma children_of_field_combining:
  "py_getitem (properties sp) field = Inr defn \<Longrightarrow> is_combining_node u defn
    \<Longrightarrow> children_of_field u sp field = Inr []"
  by (simp add: children_of_field_def)

lemma write_model_Inr:
  assumes "write_model u sp w sql is_intermediate sfx = Inr (t, w')"
  shows "\<exists>name. t = ref_table name \<and> tables w' = insert name (tables w) \<and> name \<notin> tables w
           \<and> map artifact_file (artifacts w') = map artifact_file (artifacts w) @ [name @ ''.sql'']
           \<and> stdout w' = stdout w @ [''  Generating '' @ name @ ''.sql from '' @ current_json_path sp]"
  using assms
  by (auto simp: write_model_unfold split: sum.splits dest: generate_new_table_name_Inr)

lemma process_Some:
  assumes "process u sp from_table w = Inr (Some (t, children), w')"
  shows "\<exists>select_items printed n1 n2 n3 n4.
           column_typing_select u sp = Inr (select_items, printed)
           \<and> find_children_streams u sp = Inr children
           \<and> t = ref_table n4
           \<and> tables w' = tables w \<union> {n1, n2, n3, n4}
           \<and> map artifact_file (artifacts w')
               = map artifact_file (artifacts w) @ [n1 @ ''.sql'', n2 @ ''.sql'', n3 @ ''.sql'', n4 @ ''.sql'']
           \<and> stdout w' = stdout w
               @ [''  Generating '' @ n1 @ ''.sql from '' @ current_json_path sp]
               @ printed
               @ [''  Generating '' @ n2 @ ''.sql from '' @ current_json_path sp,
                  ''  Generating '' @ n3 @ ''.sql from '' @ current_json_path sp,
                  ''  Generating '' @ n4 @ ''.sql from '' @ current_json_path sp]"
proof -
  from assms obtain sql1 t1 w1 sql2 printed t2 w2 sql3 t3 w3 sql4 where
    s1: "write_model u sp w sql1 True ''ab1'' = Inr (t1, w1)"
    and g2: "generate_column_typing_model u sp t1 = Inr (sql2, printed)"
    and s2: "write_model u sp (w1\<lparr>stdout := stdout w1 @ printed\<rparr>) sql2 True ''ab2'' = Inr (t2, w2)"
    and s3: "write_model u sp w2 sql3 True ''ab3'' = Inr (t3, w3)"
    and s4: "write_model u sp w3 sql4 False [] = Inr (t, w')"
    and ch: "find_children_streams u sp = Inr children"
    by (auto simp: process_def split: if_splits sum.splits)
  from g2 obtain select_items where ct: "column_typing_select u sp = Inr (select_items, printed)"
    by (auto simp: generate_column_typing_model_def split: sum.splits)
  from write_model_Inr [OF s1] obtain n1 where n1:
    "tables w1 = insert n1 (tables w)"
    "map artifact_file (artifacts w1) = map artifact_file (artifacts w) @ [n1 @ ''.sql'']"
    "stdout w1 = stdout w @ [''  Generating '' @ n1 @ ''.sql from '' @ current_json_path sp]"
    by blast
  from write_model_Inr [OF s2] obtain n2 where n2:
    "tables w2 = insert n2 (tables w1)"
    "map artifact_file (artifacts w2) = map artifact_file (artifacts w1) @ [n2 @ ''.sql'']"
    "stdout w2 = stdout w1 @ printed @ [''  Generating '' @ n2 @ ''.sql from '' @ current_json_path sp]"
    by auto
  from write_model_Inr [OF s3] obtain n3 where n3:
    "tables w3 = insert n3 (tables w2)"
    "map artifact_file (artifacts w3) = map artifact_file (artifacts w2) @ [n3 @ ''.sql'']"
    "stdout w3 = stdout w2 @ [''  Generating '' @ n3 @ ''.sql from '' @ current_json_path sp]"
    by blast
  from write_model_Inr [OF s4] obtain n4 where n4:
    "t = ref_table n4"
    "tables w' = insert n4 (tables w3)"
    "map artifact_file (artifacts w') = map artifact_file (artifacts w3) @ [n4 @ ''.sql'']"
    "stdout w' = stdout w3 @ [''  Generating '' @ n4 @ ''.sql from '' @ current_json_path sp]"
    by blast
  have "tables w' = tables w \<union> {n1, n2, n3, n4}"
    using n1(1) n2(1) n3(1) n4(2) by auto
  moreover have "map artifact_file (artifacts w')
               = map artifact_file (artifacts w) @ [n1 @ ''.sql'', n2 @ ''.sql'', n3 @ ''.sql'', n4 @ ''.sql'']"
    using n1(2) n2(2) n3(2) n4(3) by simp
  moreover have "stdout w' = stdout w
               @ [''  Generating '' @ n1 @ ''.sql from '' @ current_json_path sp]
               @ printed
               @ [''  Generating '' @ n2 @ ''.sql from '' @ current_json_path sp,
                  ''  Generating '' @ n3 @ ''.sql from '' @ current_json_path sp,
                  ''  Generating '' @ n4 @ ''.sql from '' @ current_json_path sp]"
    using n1(3) n2(3) n3(3) n4(4) by simp
  ultimately show ?thesis using ct ch n4(1) by blast
qed


lemma cast_property_type_printed:
  "cast_property_type u sp field = Inr (item, printed)
    \<Longrightarrow> \<forall>line \<in> set printed. prefix ''WARN: Unknown type'' line"
  by (auto simp: cast_property_type_def Let_def split: sum.splits if_splits)

lemma map_result_all:
  "map_result f xs = Inr ys \<Longrightarrow> (\<And>x y. f x = Inr y \<Longrightarrow> P y) \<Longrightarrow> \<forall>y \<in> set ys. P y"
proof (induction xs arbitrary: ys)
  case Nil
  then show ?case by simp
next
  case (Cons x xs)
  then show ?case by (auto split: sum.splits)
qed

lemma column_typing_select_printed:
  assumes "column_typing_select u sp = Inr (select_items, printed)"
  shows "\<forall>line \<in> set printed. prefix ''WARN: Unknown type'' line"
proof -
  from assms obtain names results where
    r: "map_result (cast_property_type u sp) names = Inr results"
    and p: "printed = concat (map snd results)"
    by (auto simp: column_typing_select_def cast_property_types_def split: sum.splits)
  from r have "\<forall>y \<in> set results. \<forall>line \<in> set (snd y). prefix ''WARN: Unknown type'' line"
    by (rule map_result_all) (metis cast_property_type_printed prod.collapse)
  with p show ?thesis by auto
qed

text \<open>
  C8, as the code has it. A field that is a combining node (\<^verbatim>\<open>oneOf\<close>, \<^verbatim>\<open>anyOf\<close>,
  \<^verbatim>\<open>allOf\<close>) gets no child in child discovery, and the round raises nothing. Nothing is
  printed for it: every line \<^verbatim>\<open>process\<close> prints is the line of a file it writes or an
  unknown-type warning of the column typing.
\<close>

theorem combining_field_is_skipped_silently:
  assumes "py_getitem (properties sp) field = Inr defn" and "is_combining_node u defn"
  shows "children_of_field u sp field = Inr []
       \<and> (\<forall>t children w'.
            process u sp from_table w = Inr (Some (t, children), w')
            \<longrightarrow> (\<exists>new. stdout w' = stdout w @ new
                   \<and> (\<forall>line \<in> set new.
                         prefix ''  Generating '' line \<or> prefix ''WARN: Unknown type'' line)))"
proof (intro conjI allI impI)
  from assms show "children_of_field u sp field = Inr []"
    by (rule children_of_field_combining)
next
  fix t children w'
  assume "process u sp from_table w = Inr (Some (t, children), w')"
  from process_Some [OF this] obtain select_items printed n1 n2 n3 n4 where
    ct: "column_typing_select u sp = Inr (select_items, printed)"
    and out: "stdout w' = stdout w
               @ [''  Generating '' @ n1 @ ''.sql from '' @ current_json_path sp]
               @ printed
               @ [''  Generating '' @ n2 @ ''.sql from '' @ current_json_path sp,
                  ''  Generating '' @ n3 @ ''.sql from '' @ current_json_path sp,
                  ''  Generating '' @ n4 @ ''.sql from '' @ current_json_path sp]"
    by blast
  let ?new = "[''  Generating '' @ n1 @ ''.sql from '' @ current_json_path sp]
               @ printed
               @ [''  Generating '' @ n2 @ ''.sql from '' @ current_json_path sp,
                  ''  Generating '' @ n3 @ ''.sql from '' @ current_json_path sp,
                  ''  Generating '' @ n4 @ ''.sql from '' @ current_json_path sp]"
  have "\<forall>line \<in> set ?new. prefix ''  Generating '' line \<or> prefix ''WARN: Unknown type'' line"
    using column_typing_select_printed [OF ct] by auto
  with out show "\<exists>new. stdout w' = stdout w @ new
                   \<and> (\<forall>line \<in> set new.
                         prefix ''  Generating '' line \<or> prefix ''WARN: Unknown type'' line)"
    by blast
qed

lemma combining_stream_payload:
  "py_getitem (properties combining_stream) ''payload''
     = Inr (JDict [(''type'', JStr ''object''),
                   (''oneOf'', JList [JDict [(''type'', JStr ''string'')],
                                      JDict [(''type'', JStr ''integer'')]])])"
  "is_combining_node sample_externals
     (JDict [(''type'', JStr ''object''),
             (''oneOf'', JList [JDict [(''type'', JStr ''string'')],
                                JDict [(''type'', JStr ''integer'')]])])"
  by (simp_all add: combining_stream_def init_def sample_externals_simps)

lemma process_combining_stream:
  "outcome (process sample_externals combining_stream ''raw_events'' empty_world) =
       Inr (Some (ref_table ''events'', []),
            {''events_1_ab1'', ''events_1_ab2'', ''events_1_ab3'', ''events''},
            [''events_1_ab1.sql'', ''events_1_ab2.sql'', ''events_1_ab3.sql'', ''events.sql''],
            [''  Generating events_1_ab1.sql from events'',
             ''  Generating events_1_ab2.sql from events'',
             ''  Generating events_1_ab3.sql from events'',
             ''  Generating events.sql from events''])"
  by (simp add: outcome_def combining_stream_def init_def empty_world_def sample_externals_simps
        type_is_simps process_unfold extract_json_column_def cast_property_type_def
        safe_cast_to_string_def cast_as_def cast_property_type_as_object_def Let_def
        insert_commute)

text \<open>
  C8 as the specification states it fails: the field \<^verbatim>\<open>payload\<close> of the stream
  \<open>combining_stream\<close> is a combining node, and the four lines \<^verbatim>\<open>process\<close> prints are
  the lines of its four files. No notice about the field is printed.
\<close>

theorem combining_field_notice_counterexample:
  "py_getitem (properties combining_stream) ''payload''
     = Inr (JDict [(''type'', JStr ''object''),
                   (''oneOf'', JList [JDict [(''type'', JStr ''string'')],
                                      JDict [(''type'', JStr ''integer'')]])])
   \<and> is_combining_node sample_externals
        (JDict [(''type'', JStr ''object''),
                (''oneOf'', JList [JDict [(''type'', JStr ''string'')],
                                   JDict [(''type'', JStr ''integer'')]])])
   \<and> outcome (process sample_externals combining_stream ''raw_events'' empty_world) =
       Inr (Some (ref_table ''events'', []),
            {''events_1_ab1'', ''events_1_ab2'', ''events_1_ab3'', ''events''},
            [''events_1_ab1.sql'', ''events_1_ab2.sql'', ''events_1_ab3.sql'', ''events.sql''],
            [''  Generating events_1_ab1.sql from events'',
             ''  Generating events_1_ab2.sql from events'',
             ''  Generating events_1_ab3.sql from events'',
             ''  Generating events.sql from events''])"
  using combining_stream_payload process_combining_stream by simp

theorem combining_field_is_skipped_silently_witness:
  "children_of_field sample_externals combining_stream ''payload'' = Inr []
   \<and> (\<exists>t children w' new.
        process sample_externals combining_stream ''raw_events'' empty_world
          = Inr (Some (t, children), w')
        \<and> stdout w' = stdout empty_world @ new
        \<and> (\<forall>line \<in> set new.
              prefix ''  Generating '' line \<or> prefix ''WARN: Unknown type'' line))"
proof -
  note skipped = combining_field_is_skipped_silently [OF combining_stream_payload,
      of "''raw_events''" empty_world]
  from process_combining_stream obtain t children w' where
    p: "process sample_externals combining_stream ''raw_events'' empty_world
          = Inr (Some (t, children), w')"
    by (auto simp: outcome_def split: sum.splits)
  from skipped [THEN conjunct2, THEN spec, THEN spec, THEN spec, THEN mp, OF p] p
    skipped [THEN conjunct1]
  show ?thesis by blast
qed

section \<open>Unnesting clauses of the JSON-parsing model\<close>

text \<open>
  C9. For a node with a parent, nested array or not, the text \<^verbatim>\<open>unnesting_after_query\<close>
  ends with the clause \<^verbatim>\<open>where column is not null\<close> over the node's normalized name; the
  unnest prefix \<^verbatim>\<open>unnest_cte(...)\<close> is there when the node is a nested array, and is
  empty (as the cross join is) when it is not. For a root node both texts are empty. The
  JSON-parsing model is the prefix, the select list, the \<^verbatim>\<open>from\<close> line, the tail
  clause and the table comment.
\<close>

theorem unnesting_clauses:
  "(\<forall>p. parent sp = Some p
       \<longrightarrow> unnesting_after_query u sp
             = nl @ cross_join u sp p @ nl @ ''where ''
               @ normalize_column_name u (integration_type sp) (stream_name sp) False
               @ '' is not null''
         \<and> suffix (''where '' @ normalize_column_name u (integration_type sp) (stream_name sp) False
                     @ '' is not null'')
              (unnesting_after_query u sp)
         \<and> (is_nested_array sp
              \<longrightarrow> unnesting_before_query u sp
                    = jinja_call u
                        (''unnest_cte(''
                           @ normalize_table_name u (integration_type sp) (stream_name p) @ '', ''
                           @ normalize_column_name u (integration_type sp) (stream_name sp) True
                           @ '')''))
         \<and> (\<not> is_nested_array sp
              \<longrightarrow> unnesting_before_query u sp = [] \<and> cross_join u sp p = []))
   \<and> (parent sp = None \<longrightarrow> unnesting_after_query u sp = [] \<and> unnesting_before_query u sp = [])
   \<and> (\<forall>from_table sql.
         generate_json_parsing_model u sp from_table = Inr sql
         \<longrightarrow> (\<exists>select_items.
                sql = nl @ unnesting_before_query u sp @ nl @ ''select''
                      @ render_select_list select_items
                      @ nl @ ''from '' @ from_table
                      @ nl @ unnesting_after_query u sp
                      @ nl @ sql_table_comment u sp))"
proof (intro conjI allI impI)
  fix p
  assume p: "parent sp = Some p"
  then show after: "unnesting_after_query u sp
             = nl @ cross_join u sp p @ nl @ ''where ''
               @ normalize_column_name u (integration_type sp) (stream_name sp) False
               @ '' is not null''"
    by (simp add: unnesting_after_query_def)
  have "unnesting_after_query u sp
          = (nl @ cross_join u sp p @ nl)
            @ (''where '' @ normalize_column_name u (integration_type sp) (stream_name sp) False
                 @ '' is not null'')"
    unfolding after by simp
  then show "suffix (''where '' @ normalize_column_name u (integration_type sp) (stream_name sp) False
                     @ '' is not null'')
              (unnesting_after_query u sp)"
    by (metis suffixI)
  {
    assume "is_nested_array sp"
    with p show "unnesting_before_query u sp
                    = jinja_call u
                        (''unnest_cte(''
                           @ normalize_table_name u (integration_type sp) (stream_name p) @ '', ''
                           @ normalize_column_name u (integration_type sp) (stream_name sp) True
                           @ '')'')"
      by (simp add: unnesting_before_query_def)
  }
  {
    assume "\<not> is_nested_array sp"
    with p show "unnesting_before_query u sp = []" "cross_join u sp p = []"
      by (simp_all add: unnesting_before_query_def cross_join_def)
  }
next
  assume "parent sp = None"
  then show "unnesting_after_query u sp = []" "unnesting_before_query u sp = []"
    by (simp_all add: unnesting_after_query_def unnesting_before_query_def)
next
  fix from_table sql
  assume "generate_json_parsing_model u sp from_table = Inr sql"
  then show "\<exists>select_items.
                sql = nl @ unnesting_before_query u sp @ nl @ ''select''
                      @ render_select_list select_items
                      @ nl @ ''from '' @ from_table
                      @ nl @ unnesting_after_query u sp
                      @ nl @ sql_table_comment u sp"
    by (auto simp: generate_json_parsing_model_def split: sum.splits)
qed

theorem unnesting_clauses_witness:
  "unnesting_after_query sample_externals addresses
     = nl @ ''{{ cross_join_unnest('' @ sq @ ''users'' @ sq @ '', '' @ sq @ ''addresses'' @ sq @ '') }}''
       @ nl @ ''where addresses is not null''
   \<and> unnesting_before_query sample_externals addresses
     = ''{{ unnest_cte(users, '' @ sq @ ''addresses'' @ sq @ '') }}''
   \<and> unnesting_after_query sample_externals profile_child = nl @ nl @ ''where profile is not null''
   \<and> unnesting_before_query sample_externals profile_child = []
   \<and> unnesting_after_query sample_externals users = []
   \<and> unnesting_before_query sample_externals users = []"
proof -
  have a: "parent addresses = Some users" "is_nested_array addresses"
    "stream_name addresses = ''addresses''" "integration_type addresses = POSTGRES"
    "stream_name users = ''users''"
    by (simp_all add: addresses_def initFromParent_def users_def init_def)
  have c: "parent profile_child = Some profile_stream" "\<not> is_nested_array profile_child"
    "stream_name profile_child = ''profile''" "integration_type profile_child = POSTGRES"
    by (simp_all add: profile_child_def initFromParent_def profile_stream_def init_def)
  have r: "parent users = None"
    by (simp add: users_def init_def)
  from unnesting_clauses [of addresses sample_externals, THEN conjunct1, THEN spec, THEN mp, OF a(1)]
  have 1: "unnesting_after_query sample_externals addresses
     = nl @ ''{{ cross_join_unnest('' @ sq @ ''users'' @ sq @ '', '' @ sq @ ''addresses'' @ sq @ '') }}''
       @ nl @ ''where addresses is not null''"
    "unnesting_before_query sample_externals addresses
     = ''{{ unnest_cte(users, '' @ sq @ ''addresses'' @ sq @ '') }}''"
    by (simp_all add: a cross_join_def sample_externals_simps)
  from unnesting_clauses [of profile_child sample_externals, THEN conjunct1, THEN spec, THEN mp, OF c(1)]
  have 2: "unnesting_after_query sample_externals profile_child = nl @ nl @ ''where profile is not null''"
    "unnesting_before_query sample_externals profile_child = []"
    by (simp_all add: c sample_externals_simps)
  from unnesting_clauses [of users sample_externals, THEN conjunct2, THEN conjunct1, THEN mp, OF r]
  have 3: "unnesting_after_query sample_externals users = []"
    "unnesting_before_query sample_externals users = []"
    by simp_all
  from 1 2 3 show ?thesis by simp
qed

section \<open>The cascade of nested-property discovery\<close>

lemma find_properties_object_items:
  "map_of kvs ''items'' = Some items
    \<Longrightarrow> find_properties_object u path field (JDict kvs) = find_properties_object u path field items"
  by simp

lemma find_properties_object_properties:
  "map_of kvs ''items'' = None \<Longrightarrow> map_of kvs ''properties'' = Some props
    \<Longrightarrow> find_properties_object u path field (JDict kvs)
          = Inr [(py_join ''_'' (path @ [field]), props)]"
  by simp

lemma find_properties_object_members:
  "map_of kvs ''items'' = None \<Longrightarrow> map_of kvs ''properties'' = None
    \<Longrightarrow> (\<forall>t. map_of kvs ''type'' = Some t \<longrightarrow> \<not> is_simple_property u t)
    \<Longrightarrow> find_properties_object u path field (JDict kvs) = fpo_dict_loop u (path @ [field]) kvs []"
  by (simp split: option.splits)

lemma dict_update_Nil: "dict_update result [] = result"
  by (simp add: dict_update_def)

lemma fpo_dict_loop_merge:
  "fpo_dict_loop u current_path kvs result
     = (case map_result (\<lambda>(key, v). find_properties_object u current_path key v) kvs of
          Inl e \<Rightarrow> Inl e
        | Inr children \<Rightarrow> Inr (foldl dict_update result children))"
proof (induction kvs arbitrary: result)
  case Nil
  show ?case by simp
next
  case (Cons kv kvs)
  obtain key v where kv: "kv = (key, v)" by (cases kv)
  show ?case
    unfolding kv
    by (cases "find_properties_object u current_path key v")
       (simp_all add: Cons.IH dict_update_Nil split: sum.splits)
qed

lemma fpo_list_loop_merge:
  "fpo_list_loop u current_path field xs result
     = (case map_result (find_properties_object u current_path field) xs of
          Inl e \<Rightarrow> Inl e
        | Inr children \<Rightarrow> Inr (foldl dict_update result children))"
proof (induction xs arbitrary: result)
  case Nil
  show ?case by simp
next
  case (Cons x xs)
  show ?case
    by (cases "find_properties_object u current_path field x")
       (simp_all add: Cons.IH dict_update_Nil split: sum.splits)
qed

lemma find_properties_object_list:
  "JStr ''items'' \<notin> set xs \<Longrightarrow> JStr ''properties'' \<notin> set xs \<Longrightarrow> JStr ''type'' \<notin> set xs
    \<Longrightarrow> find_properties_object u path field (JList xs) = fpo_list_loop u (path @ [field]) field xs []"
  by simp

lemma find_properties_object_plain_strings:
  "find_properties_object u [] ''status'' (JDict [(''enum'', JList [JStr ''open'', JStr ''closed''])])
     = Inr []"
  by simp

text \<open>
  C7. On a dictionary \<^verbatim>\<open>find_properties_object\<close> follows the cascade of the claim (the
  lemmas above: \<^verbatim>\<open>items\<close>, then \<^verbatim>\<open>properties\<close>, then a simple type, then every
  member, with the results merged in order). On a list the three membership tests come
  first, and they test the elements: a list that has the string \<^verbatim>\<open>items\<close>,
  \<^verbatim>\<open>properties\<close> or \<^verbatim>\<open>type\<close> among its elements is subscripted with that string,
  which raises \<^verbatim>\<open>TypeError\<close>. So the definition \<^verbatim>\<open>{"enum": ["items", "orders"]}\<close>
  raises, where the members of the list were to be visited and their results merged.
\<close>

theorem find_properties_object_list_of_strings_raises:
  "find_properties_object u [] ''status'' (JDict [(''enum'', JList [JStr ''items'', JStr ''orders''])])
     = Inl TypeError"
  by simp

end
